theory Spec2Isabelle
  imports Complex_Main
begin

section \<open>Data model (types.ts, services/geminiService.ts)\<close>

text \<open>
  JavaScript numbers are modelled as exact rationals: rounding of doubles, infinities and
  \<open>-0\<close> are outside the model. A number that is absent (\<open>undefined\<close>, or \<open>NaN\<close> after
  arithmetic on it) is \<open>None\<close>: it is falsy, and every comparison with it is false.
  A string is a list of \<open>char\<close>, each \<open>char\<close> a UTF-16 code unit below 256 (the Latin-1
  range); strings with other code units are outside the model.
\<close>

datatype UserRole = SUBMITTER | REVIEWER | VIEWER

record User =
  user_id :: string
  name :: string
  email :: string
  role :: UserRole
  organization :: string
  avatar :: "string option"

datatype FlagType =
    DUPLICATE | PRICE_ANOMALY | RENEWAL | UNUSUAL_ITEM | MARKET_DEVIATION | ZOMBIE_SPEND
  | WASTE | POLICY_VIOLATION | INSUFFICIENT_DOCS | UNAUTHORIZED | FRAUD_SUSPECTED
  | BUDGET_EXCEEDED | OTHER

datatype ReviewStatus = PENDING | VALIDATED | RESOLVED | FLAGGED | REJECTED

text \<open>
  A flag of a purchase. The intake code copies the three values of an extracted flag
  unchecked (\<open>type: f.type as FlagType, reason: f.reason, context: f.context\<close>), so at run
  time the type is whatever string the provider returned, and each of the three keys is
  present with a value that may be \<open>undefined\<close>: \<open>None\<close>.
\<close>

record Flag =
  flag_type :: "string option"
  flag_reason :: "string option"
  flag_context :: "string option"

text \<open>
  \<open>PurchaseFields\<close> is \<open>Omit<PurchaseDocument, 'id'>\<close>, the object the intake code builds
  and the fields a stored document holds; \<open>PurchaseDocument\<close> adds the identifier. An
  optional field is \<open>None\<close> when its key is absent or its value is \<open>undefined\<close>.
\<close>

record PurchaseFields =
  vendor :: string
  date :: string
  amount :: rat
  description :: string
  category :: string
  flags :: "Flag list"
  status :: ReviewStatus
  fileUrl :: "string option"
  department :: string
  submittedBy :: string
  aiConfidence :: "rat option"
  suggestedGlCode :: "string option"
  marketPriceEstimate :: "rat option"
  isSubscription :: "bool option"
  rejectionFlags :: "FlagType list option"
  rejectionNotes :: "string option"
  rejectedBy :: "string option"
  rejectedAt :: "string option"

record PurchaseDocument = PurchaseFields +
  doc_id :: string

text \<open>
  The extraction result is the unvalidated \<open>JSON.parse\<close> of the provider's answer. Its
  strings are modelled as (possibly empty) strings; its numbers, its boolean and its flag
  list may be absent, as the guards of the intake code (\<open>data.amount || 0\<close>,
  \<open>data.flags && ...\<close>) provide for. The response schema requires none of the properties
  of a flag item, so each of them may be absent.
\<close>

record ExtractionFlag =
  x_type :: "string option"
  x_reason :: "string option"
  x_context :: "string option"

record ExtractionResult =
  r_vendor :: string
  r_amount :: "rat option"
  r_date :: string
  r_description :: string
  r_category :: string
  r_confidence :: "rat option"
  r_suggestedGlCode :: string
  r_marketPriceEstimate :: "rat option"
  r_isSubscription :: "bool option"
  r_flags :: "ExtractionFlag list option"

section \<open>Duplicate detection (components/Upload.tsx, duplicateMatches)\<close>

text \<open>
  \<open>String.prototype.toLowerCase\<close> on code units below 256: the letters \<open>A\<close> to \<open>Z\<close> and the
  capital letters U+00C0 to U+00DE (without the multiplication sign U+00D7) move up by 32;
  every other code unit is kept.
\<close>

definition lowerChar :: "char \<Rightarrow> char" where
  "lowerChar c =
     (if ((65::nat) \<le> of_char c \<and> of_char c \<le> (90::nat))
         \<or> ((192::nat) \<le> of_char c \<and> of_char c \<le> (222::nat) \<and> of_char c \<noteq> (215::nat))
      then char_of (of_char c + (32::nat)) else c)"

definition toLowerCase :: "string \<Rightarrow> string" where
  "toLowerCase s = map lowerChar s"

text \<open>Decimal rendering of a non-negative integer, as a template literal prints it.\<close>

fun showNat :: "nat \<Rightarrow> string" where
  "showNat n =
     (if n < 10 then [char_of (48 + n)] else showNat (n div 10) @ [char_of (48 + n mod 10)])"

declare showNat.simps [simp del]

text \<open>\<open>Math.round\<close>: the nearest integer, a half rounded up.\<close>

definition mathRound :: "rat \<Rightarrow> int" where
  "mathRound x = \<lfloor>x + 1 / 2\<rfloor>"

definition DUPLICATE_WINDOW_DAYS :: rat where
  "DUPLICATE_WINDOW_DAYS = 60"

text \<open>
  \<open>new Date(s).getTime()\<close> is a parameter \<open>getTime\<close>: the milliseconds since the epoch, or
  \<open>None\<close> for an invalid date (\<open>NaN\<close>). \<open>daysDiff\<close> is
  \<open>Math.abs((purchaseDate.getTime() - resultDate.getTime()) / (1000 * 60 * 60 * 24))\<close>.
\<close>

definition daysDiff :: "(string \<Rightarrow> int option) \<Rightarrow> PurchaseDocument \<Rightarrow> ExtractionResult \<Rightarrow> rat option" where
  "daysDiff getTime purchase result =
     (case (getTime (date purchase), getTime (r_date result)) of
        (Some tp, Some tr) \<Rightarrow> Some (\<bar>of_int (tp - tr) / (1000 * 60 * 60 * 24)\<bar>)
      | _ \<Rightarrow> None)"

definition vendorMatch :: "PurchaseDocument \<Rightarrow> ExtractionResult \<Rightarrow> bool" where
  "vendorMatch purchase result \<longleftrightarrow> toLowerCase (vendor purchase) = toLowerCase (r_vendor result)"

text \<open>
  \<open>amountDiff = Math.abs(purchase.amount - result.amount)\<close>,
  \<open>amountThreshold = result.amount * 0.01\<close>, and the check is \<open>amountDiff <= amountThreshold\<close>.
\<close>

definition amountMatch :: "PurchaseDocument \<Rightarrow> ExtractionResult \<Rightarrow> bool" where
  "amountMatch purchase result \<longleftrightarrow>
     (case r_amount result of
        None \<Rightarrow> False
      | Some a \<Rightarrow> \<bar>amount purchase - a\<bar> \<le> a * (1 / 100))"

definition dateMatch :: "(string \<Rightarrow> int option) \<Rightarrow> PurchaseDocument \<Rightarrow> ExtractionResult \<Rightarrow> bool" where
  "dateMatch getTime purchase result \<longleftrightarrow>
     (case daysDiff getTime purchase result of
        None \<Rightarrow> False
      | Some d \<Rightarrow> d \<le> DUPLICATE_WINDOW_DAYS)"

record DuplicateMatch =
  purchase :: PurchaseDocument
  score :: int
  reasons :: "string list"

text \<open>The body of the \<open>forEach\<close> up to the threshold test: the reasons pushed and the score.\<close>

definition scorePair :: "(string \<Rightarrow> int option) \<Rightarrow> ExtractionResult \<Rightarrow> PurchaseDocument \<Rightarrow> DuplicateMatch" where
  "scorePair getTime result p =
     (let (reasons0, score0) = ([], 0);
          (reasons1, score1) =
            (if vendorMatch p result then (reasons0 @ [''Same vendor''], score0 + 30)
             else (reasons0, score0));
          (reasons2, score2) =
            (if amountMatch p result then (reasons1 @ [''Same amount''], score1 + 40)
             else (reasons1, score1));
          (reasons3, score3) =
            (case daysDiff getTime p result of
               None \<Rightarrow> (reasons2, score2)
             | Some d \<Rightarrow>
                 if d \<le> DUPLICATE_WINDOW_DAYS
                 then (reasons2 @ [''Within '' @ showNat (nat (mathRound d)) @ '' days''], score2 + 30)
                 else (reasons2, score2))
      in \<lparr>purchase = p, score = score3, reasons = reasons3\<rparr>)"

definition isPotentialDuplicate :: "DuplicateMatch \<Rightarrow> bool" where
  "isPotentialDuplicate m \<longleftrightarrow> score m \<ge> 60 \<and> length (reasons m) \<ge> 2"

text \<open>
  The memoised value: no result gives the empty list; otherwise the pairs that pass the
  threshold, sorted by descending score (\<open>Array.prototype.sort\<close> is stable).
\<close>

definition duplicateMatches ::
  "(string \<Rightarrow> int option) \<Rightarrow> ExtractionResult option \<Rightarrow> PurchaseDocument list \<Rightarrow> DuplicateMatch list" where
  "duplicateMatches getTime result existingPurchases =
     (case result of
        None \<Rightarrow> []
      | Some r \<Rightarrow>
          sort_key (\<lambda>m. - score m)
            (filter isPotentialDuplicate (map (scorePair getTime r) existingPurchases)))"

subsection \<open>A concrete date parser for the examples\<close>

text \<open>
  The date-only form \<open>YYYY-MM-DD\<close> of the ECMAScript date-time string format, read as
  midnight UTC of a valid calendar day; every other string is an invalid date here.
\<close>

definition digitVal :: "char \<Rightarrow> int option" where
  "digitVal c =
     (if (48::nat) \<le> of_char c \<and> of_char c \<le> (57::nat) then Some (int (of_char c) - 48) else None)"

definition isLeapYear :: "int \<Rightarrow> bool" where
  "isLeapYear y \<longleftrightarrow> y mod 4 = 0 \<and> (y mod 100 \<noteq> 0 \<or> y mod 400 = 0)"

definition daysInMonth :: "int \<Rightarrow> int \<Rightarrow> int" where
  "daysInMonth y m =
     (if m = 2 then (if isLeapYear y then 29 else 28)
      else if m = 4 \<or> m = 6 \<or> m = 9 \<or> m = 11 then 30 else 31)"

definition daysFromCivil :: "int \<Rightarrow> int \<Rightarrow> int \<Rightarrow> int" where
  "daysFromCivil y m d =
     (let y1 = (if m \<le> 2 then y - 1 else y);
          era = y1 div 400;
          yoe = y1 - era * 400;
          doy = (153 * (if m > 2 then m - 3 else m + 9) + 2) div 5 + d - 1;
          doe = yoe * 365 + yoe div 4 - yoe div 100 + doy
      in era * 146097 + doe - 719468)"

fun isoDateTime :: "string \<Rightarrow> int option" where
  "isoDateTime [y1, y2, y3, y4, s1, m1, m2, s2, d1, d2] =
     (case (digitVal y1, digitVal y2, digitVal y3, digitVal y4,
            digitVal m1, digitVal m2, digitVal d1, digitVal d2) of
        (Some a, Some b, Some c, Some e, Some f, Some g, Some h, Some i) \<Rightarrow>
          (let y = 1000 * a + 100 * b + 10 * c + e; m = 10 * f + g; d = 10 * h + i
           in if s1 = CHR ''-'' \<and> s2 = CHR ''-'' \<and> 1 \<le> m \<and> m \<le> 12 \<and> 1 \<le> d \<and> d \<le> daysInMonth y m
              then Some (daysFromCivil y m d * 86400000) else None)
      | _ \<Rightarrow> None)"
| "isoDateTime _ = None"

section \<open>Application state and persistence (the App component)\<close>

datatype error = FirebaseError string | ProviderError string | SyntaxError | TypeError

text \<open>The JavaScript \<open>x || d\<close> on a number (\<open>0\<close> and an absent number are falsy) and on a string.\<close>

definition numOr :: "rat option \<Rightarrow> rat \<Rightarrow> rat" where
  "numOr x d = (case x of None \<Rightarrow> d | Some v \<Rightarrow> if v = 0 then d else v)"

definition strOr :: "string \<Rightarrow> string \<Rightarrow> string" where
  "strOr s d = (if s = [] then d else s)"

text \<open>
  \<open>Partial<PurchaseDocument>\<close>: for every key, \<open>None\<close> when the object does not have the key.
  A key of an optional field may also be present with the value \<open>undefined\<close>: \<open>Some None\<close>.
  (An explicit \<open>undefined\<close> for a required field is not produced by any caller and is left
  out of the model.)
\<close>

record PurchaseUpdates =
  u_vendor :: "string option"
  u_date :: "string option"
  u_amount :: "rat option"
  u_description :: "string option"
  u_category :: "string option"
  u_flags :: "(Flag list) option"
  u_status :: "ReviewStatus option"
  u_fileUrl :: "string option option"
  u_department :: "string option"
  u_submittedBy :: "string option"
  u_aiConfidence :: "rat option option"
  u_suggestedGlCode :: "string option option"
  u_marketPriceEstimate :: "rat option option"
  u_isSubscription :: "bool option option"
  u_rejectionFlags :: "(FlagType list) option option"
  u_rejectionNotes :: "string option option"
  u_rejectedBy :: "string option option"
  u_rejectedAt :: "string option option"
  u_doc_id :: "string option"

text \<open>The object literal \<open>{}\<close>.\<close>

definition noUpdates :: PurchaseUpdates where
  "noUpdates =
     \<lparr>u_vendor = None,
      u_date = None,
      u_amount = None,
      u_description = None,
      u_category = None,
      u_flags = None,
      u_status = None,
      u_fileUrl = None,
      u_department = None,
      u_submittedBy = None,
      u_aiConfidence = None,
      u_suggestedGlCode = None,
      u_marketPriceEstimate = None,
      u_isSubscription = None,
      u_rejectionFlags = None,
      u_rejectionNotes = None,
      u_rejectedBy = None,
      u_rejectedAt = None,
      u_doc_id = None\<rparr>"

definition orKeep :: "'a option \<Rightarrow> 'a \<Rightarrow> 'a" where
  "orKeep u old = (case u of None \<Rightarrow> old | Some v \<Rightarrow> v)"

text \<open>The spread \<open>{ ...p, ...updates }\<close>: every key of \<open>updates\<close> overrides, also one whose value is \<open>undefined\<close>.\<close>

definition spreadUpdates :: "PurchaseDocument \<Rightarrow> PurchaseUpdates \<Rightarrow> PurchaseDocument" where
  "spreadUpdates p updates =
     \<lparr>vendor = orKeep (u_vendor updates) (vendor p),
      date = orKeep (u_date updates) (date p),
      amount = orKeep (u_amount updates) (amount p),
      description = orKeep (u_description updates) (description p),
      category = orKeep (u_category updates) (category p),
      flags = orKeep (u_flags updates) (flags p),
      status = orKeep (u_status updates) (status p),
      fileUrl = orKeep (u_fileUrl updates) (fileUrl p),
      department = orKeep (u_department updates) (department p),
      submittedBy = orKeep (u_submittedBy updates) (submittedBy p),
      aiConfidence = orKeep (u_aiConfidence updates) (aiConfidence p),
      suggestedGlCode = orKeep (u_suggestedGlCode updates) (suggestedGlCode p),
      marketPriceEstimate = orKeep (u_marketPriceEstimate updates) (marketPriceEstimate p),
      isSubscription = orKeep (u_isSubscription updates) (isSubscription p),
      rejectionFlags = orKeep (u_rejectionFlags updates) (rejectionFlags p),
      rejectionNotes = orKeep (u_rejectionNotes updates) (rejectionNotes p),
      rejectedBy = orKeep (u_rejectedBy updates) (rejectedBy p),
      rejectedAt = orKeep (u_rejectedAt updates) (rejectedAt p),
      doc_id = orKeep (u_doc_id updates) (doc_id p)\<rparr>"

text \<open>
  \<open>Object.fromEntries(Object.entries(updates).filter(([_, value]) => value !== undefined))\<close>:
  the keys whose value is \<open>undefined\<close> are removed.
\<close>

definition dropUndefined :: "'a option option \<Rightarrow> 'a option option" where
  "dropUndefined x = (case x of Some None \<Rightarrow> None | _ \<Rightarrow> x)"

definition cleanedUpdates :: "PurchaseUpdates \<Rightarrow> PurchaseUpdates" where
  "cleanedUpdates updates =
     updates\<lparr>u_fileUrl := dropUndefined (u_fileUrl updates),
       u_aiConfidence := dropUndefined (u_aiConfidence updates),
       u_suggestedGlCode := dropUndefined (u_suggestedGlCode updates),
       u_marketPriceEstimate := dropUndefined (u_marketPriceEstimate updates),
       u_isSubscription := dropUndefined (u_isSubscription updates),
       u_rejectionFlags := dropUndefined (u_rejectionFlags updates),
       u_rejectionNotes := dropUndefined (u_rejectionNotes updates),
       u_rejectedBy := dropUndefined (u_rejectedBy updates),
       u_rejectedAt := dropUndefined (u_rejectedAt updates)\<rparr>"

text \<open>
  The state of the App component that the handlers read and write, with the backing store
  \<open>db\<close> of the Persistence Adapter. The adapter is external: its operations are
  parameters, \<open>updateDoc\<close> (standing for \<open>doc\<close> followed by \<open>updateDoc\<close>), \<open>addDoc\<close> and
  \<open>uploadReceiptImage\<close>, each returning \<open>Inl\<close> when the promise rejects.
\<close>

record 'db AppState =
  purchases :: "PurchaseDocument list"
  usingMockData :: bool
  isAdding :: bool
  activeTab :: string
  db :: 'db

definition handleUpdatePurchase ::
  "('db \<Rightarrow> string \<Rightarrow> PurchaseUpdates \<Rightarrow> error + 'db) \<Rightarrow> string \<Rightarrow> PurchaseUpdates \<Rightarrow> 'db AppState \<Rightarrow> 'db AppState" where
  "handleUpdatePurchase updateDoc ident updates st =
     (let st1 = st\<lparr>purchases := map (\<lambda>p. if doc_id p = ident then spreadUpdates p updates else p) (purchases st)\<rparr>
      in if \<not> usingMockData st
         then (case updateDoc (db st) ident (cleanedUpdates updates) of
                 Inr db' \<Rightarrow> st1\<lparr>db := db'\<rparr>
               | Inl e \<Rightarrow> (if \<not> usingMockData st then st1\<lparr>usingMockData := True\<rparr> else st1))
         else st1)"

definition newPurchase :: "ExtractionResult \<Rightarrow> User option \<Rightarrow> string \<Rightarrow> string \<Rightarrow> PurchaseFields" where
  "newPurchase data currentUser url today =
     \<lparr>vendor = strOr (r_vendor data) ''Unknown Vendor'',
      date = strOr (r_date data) today,
      amount = numOr (r_amount data) 0,
      description = strOr (r_description data) ''No description provided'',
      category = strOr (r_category data) ''General'',
      flags = map (\<lambda>f. \<lparr>flag_type = x_type f, flag_reason = x_reason f, flag_context = x_context f\<rparr>)
                (case r_flags data of None \<Rightarrow> [] | Some fs \<Rightarrow> fs),
      status = (if (case r_flags data of None \<Rightarrow> False | Some fs \<Rightarrow> length fs > 0) then FLAGGED else PENDING),
      fileUrl = Some url,
      department = (case currentUser of None \<Rightarrow> ''General'' | Some u \<Rightarrow> strOr (organization u) ''General''),
      submittedBy = (case currentUser of None \<Rightarrow> ''Anonymous'' | Some u \<Rightarrow> strOr (name u) ''Anonymous''),
      aiConfidence = Some (numOr (r_confidence data) 0),
      suggestedGlCode = Some (strOr (r_suggestedGlCode data) ''N/A''),
      marketPriceEstimate = Some (numOr (r_marketPriceEstimate data) 0),
      isSubscription = Some (case r_isSubscription data of None \<Rightarrow> False | Some b \<Rightarrow> b),
      rejectionFlags = None, rejectionNotes = None, rejectedBy = None, rejectedAt = None\<rparr>"

text \<open>
  \<open>today\<close> is \<open>new Date().toISOString().split('T')[0]\<close> and \<open>nowMs\<close> is \<open>Date.now()\<close>. The
  snapshot listener that later replaces the list by the stored documents is not part of
  this handler.
\<close>

text \<open>
  The first step of \<open>handleUploadComplete\<close>: \<open>fileUrl\<close> is the empty string unless the image
  is uploaded, which is tried only outside sandbox mode for a user with an identifier; a
  failed upload is caught and leaves the empty string.
\<close>

definition uploadedFileUrl ::
  "(string \<Rightarrow> string \<Rightarrow> error + string) \<Rightarrow> User option \<Rightarrow> string \<Rightarrow> 'db AppState \<Rightarrow> string" where
  "uploadedFileUrl uploadReceiptImage currentUser imageData st =
     (case currentUser of
        None \<Rightarrow> []
      | Some u \<Rightarrow>
          if \<not> usingMockData st \<and> user_id u \<noteq> []
          then (case uploadReceiptImage imageData (user_id u) of Inr v \<Rightarrow> v | Inl e \<Rightarrow> [])
          else [])"

definition handleUploadComplete ::
  "(string \<Rightarrow> string \<Rightarrow> error + string) \<Rightarrow> ('db \<Rightarrow> PurchaseFields \<Rightarrow> error + 'db) \<Rightarrow> User option \<Rightarrow> string \<Rightarrow> nat
     \<Rightarrow> ExtractionResult \<Rightarrow> string \<Rightarrow> 'db AppState \<Rightarrow> 'db AppState" where
  "handleUploadComplete uploadReceiptImage addDoc currentUser today nowMs data imageData st =
     (let url = uploadedFileUrl uploadReceiptImage currentUser imageData st;
          new = newPurchase data currentUser url today;
          tempId = ''uploading-'' @ showNat nowMs;
          st1 = st\<lparr>purchases := PurchaseFields.extend new (PurchaseDocument.fields tempId) # purchases st\<rparr>;
          st2 =
            (if \<not> usingMockData st
             then (case addDoc (db st) new of
                     Inr db' \<Rightarrow> st1\<lparr>db := db'\<rparr>
                   | Inl e \<Rightarrow> st1\<lparr>usingMockData := True\<rparr>)
             else st1)
      in st2\<lparr>isAdding := False, activeTab := ''dashboard''\<rparr>)"

section \<open>Review workflow (the Review component)\<close>

text \<open>
  The handlers of the Review component, on the App state they act on through \<open>onUpdate\<close>
  (\<open>handleUpdatePurchase\<close>) and \<open>onBack\<close>. The component's own spinner and modal flags are
  left out. \<open>selectedRejectionFlags\<close> and \<open>rejectionNotes\<close> are the modal's state, and
  \<open>now\<close> is \<open>new Date().toISOString()\<close>.
\<close>

definition isReviewer :: "User \<Rightarrow> bool" where
  "isReviewer user \<longleftrightarrow> role user = REVIEWER"

definition onBack :: "'db AppState \<Rightarrow> 'db AppState" where
  "onBack st = st\<lparr>activeTab := ''dashboard''\<rparr>"

text \<open>
  The white space and line terminators of ECMAScript among the code units below 256: TAB,
  LF, VT, FF, CR, the space and the no-break space U+00A0.
\<close>

definition isWhiteSpace :: "char \<Rightarrow> bool" where
  "isWhiteSpace c \<longleftrightarrow>
     ((9::nat) \<le> of_char c \<and> of_char c \<le> (13::nat)) \<or> of_char c = (32::nat) \<or> of_char c = (160::nat)"

text \<open>\<open>String.prototype.trim\<close>: the white space is removed from both ends.\<close>

definition trim :: "string \<Rightarrow> string" where
  "trim s = rev (dropWhile isWhiteSpace (rev (dropWhile isWhiteSpace s)))"

definition handleAction ::
  "('db \<Rightarrow> string \<Rightarrow> PurchaseUpdates \<Rightarrow> error + 'db) \<Rightarrow> User \<Rightarrow> PurchaseDocument \<Rightarrow> ReviewStatus
     \<Rightarrow> 'db AppState \<Rightarrow> 'db AppState" where
  "handleAction updateDoc user item newStatus st =
     (if \<not> isReviewer user then st
      else onBack (handleUpdatePurchase updateDoc (doc_id item) (noUpdates\<lparr>u_status := Some newStatus\<rparr>) st))"

definition rejectUpdates :: "User \<Rightarrow> FlagType list \<Rightarrow> string \<Rightarrow> string \<Rightarrow> PurchaseUpdates" where
  "rejectUpdates user selectedRejectionFlags rejectionNotesText now =
     noUpdates
       \<lparr>u_status := Some REJECTED,
        u_rejectionFlags := Some (Some selectedRejectionFlags),
        u_rejectionNotes := Some (if trim rejectionNotesText = [] then None else Some (trim rejectionNotesText)),
        u_rejectedBy := Some (Some (name user)),
        u_rejectedAt := Some (Some now)\<rparr>"

definition handleReject ::
  "('db \<Rightarrow> string \<Rightarrow> PurchaseUpdates \<Rightarrow> error + 'db) \<Rightarrow> User \<Rightarrow> PurchaseDocument \<Rightarrow> FlagType list \<Rightarrow> string
     \<Rightarrow> string \<Rightarrow> 'db AppState \<Rightarrow> 'db AppState" where
  "handleReject updateDoc user item selectedRejectionFlags rejectionNotesText now st =
     (if \<not> isReviewer user \<or> length selectedRejectionFlags = 0 then st
      else onBack (handleUpdatePurchase updateDoc (doc_id item)
                     (rejectUpdates user selectedRejectionFlags rejectionNotesText now) st))"

section \<open>Price search (services/geminiService.ts, searchMarketPriceStreaming)\<close>

record Source =
  title :: string
  url :: string

record MarketPriceResult =
  averagePrice :: "rat option"
  mp_priceRange :: "(rat \<times> rat) option"
  mp_sources :: "Source list"
  mp_confidence :: rat
  searchQuery :: string
  mp_reasoning :: string

datatype SearchStage = starting | searching | found_price | analyzing | complete

text \<open>A found price keeps its number; the \<open>toFixed(2)\<close> rendering is not modelled.\<close>

record SearchProgressUpdate =
  stage :: SearchStage
  detail :: "string option"
  sp_sources :: "Source list option"
  foundPrices :: "(string \<times> rat) list option"

text \<open>
  What the provider call of the search comes to: the call rejects, the response has no
  text, the cleaned text is not JSON (\<open>JSON.parse\<close> throws), or it parses to an object with
  the fields below, next to the web sources of the grounding metadata. The cleaning of the
  text (code fences, the regular expression) is represented by this outcome.
\<close>

record RawPriceJson =
  raw_averagePrice :: "rat option"
  raw_priceRange :: "(rat \<times> rat) option"
  raw_confidence :: "rat option"
  raw_reasoning :: string

datatype SearchResponse =
    CallRejected error
  | NoText
  | NotJson
  | Parsed RawPriceJson "Source list"

text \<open>
  The whole body is inside \<open>try { ... } catch (error) { onProgress(...); return null; }\<close>, so
  the promise always resolves. The result is the list of progress updates passed to
  \<open>onProgress\<close>, in order, and the value returned.
\<close>

definition searchMarketPriceStreaming ::
  "string \<Rightarrow> SearchResponse \<Rightarrow> SearchProgressUpdate list \<times> MarketPriceResult option" where
  "searchMarketPriceStreaming item response =
     (let started = \<lparr>stage = searching, detail = Some (''Searching for \"'' @ item @ ''\"...''),
                      sp_sources = None, foundPrices = None\<rparr>;
          failed = \<lparr>stage = complete, detail = Some ''Search failed'', sp_sources = None, foundPrices = None\<rparr>
      in case response of
           CallRejected e \<Rightarrow> ([started, failed], None)
         | NoText \<Rightarrow> ([started], None)
         | NotJson \<Rightarrow> ([started, failed], None)
         | Parsed raw srcs \<Rightarrow>
             ([started,
               \<lparr>stage = complete, detail = Some (strOr (raw_reasoning raw) ''Search complete''),
                sp_sources = Some srcs,
                foundPrices = Some (case raw_averagePrice raw of
                                      None \<Rightarrow> []
                                    | Some v \<Rightarrow> if v = 0 then [] else [(''Market Average'', v)])\<rparr>],
              Some \<lparr>averagePrice = (case raw_averagePrice raw of
                                       None \<Rightarrow> None
                                     | Some v \<Rightarrow> if v = 0 then None else Some v),
                    mp_priceRange = raw_priceRange raw,
                    mp_sources = srcs,
                    mp_confidence = numOr (raw_confidence raw) 50,
                    searchQuery = item,
                    mp_reasoning = strOr (raw_reasoning raw) ''Price search complete''\<rparr>))"

section \<open>Intake orchestration (components/Upload.tsx)\<close>

record Normalized =
  normalizedId :: string
  itemName :: string
  confidence :: rat

record PriceIntelligence = Normalized +
  stateAverage :: "rat option"
  savingsOpportunity :: "rat option"
  sources :: "Source list option"
  priceRange :: "(rat \<times> rat) option"
  searchConfidence :: "rat option"
  reasoning :: "string option"

record CommitmentData =
  isRecurring :: bool
  renewalDate :: "string option"
  cancellationDeadline :: "string option"
  escalationClause :: "string option"

text \<open>
  The state of the Upload component. \<open>preview\<close> is the data URL of the chosen file (the
  \<open>File\<close> object itself and the file input are left out).
\<close>

record UploadState =
  preview :: "string option"
  isProcessing :: bool
  result :: "ExtractionResult option"
  showDuplicateWarning :: bool
  priceIntelligence :: "PriceIntelligence option"
  priceSearching :: bool
  searchProgress :: "SearchProgressUpdate option"
  commitmentData :: "CommitmentData option"

text \<open>\<open>x - y\<close> on numbers that may be absent, and \<open>s > 0 ? s : undefined\<close>.\<close>

definition numSub :: "rat option \<Rightarrow> rat option \<Rightarrow> rat option" where
  "numSub x y = (case (x, y) of (Some a, Some b) \<Rightarrow> Some (a - b) | _ \<Rightarrow> None)"

definition positiveOrUndefined :: "rat option \<Rightarrow> rat option" where
  "positiveOrUndefined s = (case s of None \<Rightarrow> None | Some v \<Rightarrow> if v > 0 then Some v else None)"

text \<open>
  \<open>handleProcess\<close> is an asynchronous function; on the single-threaded event loop it runs
  as a sequence of continuations, one after each \<open>await\<close>. Each continuation is a
  function on the component state: \<open>handleProcessStart\<close> up to the call of
  \<open>analyzeReceipt\<close>, \<open>afterAnalyze\<close> when its promise resolves, \<open>afterNormalize\<close>, the
  progress callback and \<open>afterSearch\<close> for the price task, and \<open>afterCommitments\<close> for the
  commitment task. The promise of \<open>searchMarketPriceStreaming\<close> is awaited as
  \<open>error + MarketPriceResult option\<close>: \<open>Inl\<close> is a rejection, which the \<open>catch\<close> of
  \<open>handleProcess\<close> handles.
\<close>

definition handleProcessStart :: "UploadState \<Rightarrow> UploadState" where
  "handleProcessStart st =
     (case preview st of
        None \<Rightarrow> st
      | Some pv \<Rightarrow>
          if pv = [] then st
          else st\<lparr>isProcessing := True, showDuplicateWarning := False,
                  priceIntelligence := None, commitmentData := None\<rparr>)"

definition afterAnalyze :: "ExtractionResult option \<Rightarrow> UploadState \<Rightarrow> UploadState" where
  "afterAnalyze extractedData st =
     (case extractedData of
        Some d \<Rightarrow> st\<lparr>result := Some d, isProcessing := False\<rparr>
      | None \<Rightarrow> st\<lparr>isProcessing := False\<rparr>)"

definition afterNormalize :: "Normalized option \<Rightarrow> UploadState \<Rightarrow> UploadState" where
  "afterNormalize normalized st =
     (case normalized of
        None \<Rightarrow> st
      | Some n \<Rightarrow>
          st\<lparr>priceIntelligence :=
               Some (Normalized.extend n
                       (PriceIntelligence.fields None None None None None None)),
             priceSearching := True,
             searchProgress := None\<rparr>)"

definition onProgress :: "SearchProgressUpdate \<Rightarrow> UploadState \<Rightarrow> UploadState" where
  "onProgress update st = st\<lparr>searchProgress := Some update\<rparr>"

definition afterSearch ::
  "ExtractionResult \<Rightarrow> Normalized \<Rightarrow> error + MarketPriceResult option \<Rightarrow> UploadState \<Rightarrow> UploadState" where
  "afterSearch extractedData n settled st =
     (let st1 =
            (case settled of
               Inr None \<Rightarrow> st
             | Inr (Some marketPrice) \<Rightarrow>
                 if averagePrice marketPrice \<noteq> None
                 then st\<lparr>priceIntelligence :=
                           Some (Normalized.extend n
                                   (PriceIntelligence.fields
                                      (averagePrice marketPrice)
                                      (positiveOrUndefined (numSub (r_amount extractedData) (averagePrice marketPrice)))
                                      (Some (mp_sources marketPrice))
                                      (mp_priceRange marketPrice)
                                      (Some (mp_confidence marketPrice))
                                      (Some (mp_reasoning marketPrice))))\<rparr>
                 else st
             | Inl priceError \<Rightarrow>
                 (case r_marketPriceEstimate extractedData of
                    None \<Rightarrow> st
                  | Some est \<Rightarrow>
                      if est = 0 then st
                      else st\<lparr>priceIntelligence :=
                                Some (Normalized.extend n
                                        (PriceIntelligence.fields
                                           (Some est)
                                           (positiveOrUndefined (numSub (r_amount extractedData) (Some est)))
                                           None None None None))\<rparr>))
      in st1\<lparr>priceSearching := False, searchProgress := None\<rparr>)"

definition afterCommitments :: "CommitmentData option \<Rightarrow> UploadState \<Rightarrow> UploadState" where
  "afterCommitments commitments st =
     (case commitments of None \<Rightarrow> st | Some c \<Rightarrow> st\<lparr>commitmentData := Some c\<rparr>)"

text \<open>
  The price task run to its end with no other event in between: \<open>normalized\<close> is what
  \<open>normalizeItemForPricing\<close> resolved to and \<open>response\<close> what the provider did for the
  search.
\<close>

definition priceTask ::
  "ExtractionResult \<Rightarrow> Normalized option \<Rightarrow> SearchResponse \<Rightarrow> UploadState \<Rightarrow> UploadState" where
  "priceTask extractedData normalized response st =
     (case normalized of
        None \<Rightarrow> st
      | Some n \<Rightarrow>
          (let st1 = afterNormalize (Some n) st;
               (updates, marketPrice) = searchMarketPriceStreaming (itemName n) response;
               st2 = foldl (\<lambda>s u. onProgress u s) st1 updates
           in afterSearch extractedData n (Inr marketPrice) st2))"

text \<open>
  The result card of the Upload screen renders \<open>result.amount.toFixed(2)\<close> as soon as a
  result is set: a \<open>TypeError\<close> when the amount is absent, otherwise the number to print
  (its rendering with two decimals is not modelled). The confirm button is part of the
  same screen.
\<close>

definition renderDetectedAmount :: "ExtractionResult \<Rightarrow> error + rat" where
  "renderDetectedAmount extracted =
     (case r_amount extracted of None \<Rightarrow> Inl TypeError | Some a \<Rightarrow> Inr a)"

definition reset :: "UploadState \<Rightarrow> UploadState" where
  "reset st =
     st\<lparr>preview := None, result := None, showDuplicateWarning := False,
        priceIntelligence := None, priceSearching := False, searchProgress := None,
        commitmentData := None\<rparr>"

section \<open>Notions used by the properties\<close>

text \<open>How many of the three checks of the scorer are satisfied for a pair.\<close>

definition checksMatched :: "(string \<Rightarrow> int option) \<Rightarrow> ExtractionResult \<Rightarrow> PurchaseDocument \<Rightarrow> nat" where
  "checksMatched getTime candidate p =
     (if vendorMatch p candidate then 1 else 0) + (if amountMatch p candidate then 1 else 0)
       + (if dateMatch getTime p candidate then 1 else 0)"

text \<open>A purchase is classified as a duplicate match when the match list has an entry for it.\<close>

definition isClassifiedDuplicate ::
  "(string \<Rightarrow> int option) \<Rightarrow> ExtractionResult \<Rightarrow> PurchaseDocument list \<Rightarrow> PurchaseDocument \<Rightarrow> bool" where
  "isClassifiedDuplicate getTime candidate existingPurchases p \<longleftrightarrow>
     p \<in> set (map purchase (duplicateMatches getTime (Some candidate) existingPurchases))"

text \<open>
  No value of the object literal of \<open>newPurchase\<close> is \<open>undefined\<close>: the optional fields the
  literal sets, and the three keys of every flag. (The backing store rejects a document
  with an \<open>undefined\<close> value.)
\<close>

definition extractionFlagComplete :: "ExtractionFlag \<Rightarrow> bool" where
  "extractionFlagComplete f \<longleftrightarrow> x_type f \<noteq> None \<and> x_reason f \<noteq> None \<and> x_context f \<noteq> None"

definition flagComplete :: "Flag \<Rightarrow> bool" where
  "flagComplete f \<longleftrightarrow> flag_type f \<noteq> None \<and> flag_reason f \<noteq> None \<and> flag_context f \<noteq> None"

definition freeOfUndefined :: "PurchaseFields \<Rightarrow> bool" where
  "freeOfUndefined new \<longleftrightarrow>
     fileUrl new \<noteq> None \<and> aiConfidence new \<noteq> None \<and> suggestedGlCode new \<noteq> None
     \<and> marketPriceEstimate new \<noteq> None \<and> isSubscription new \<noteq> None
     \<and> list_all flagComplete (flags new)"

section \<open>Example data\<close>

definition mkPurchase :: "string \<Rightarrow> string \<Rightarrow> rat \<Rightarrow> string \<Rightarrow> ReviewStatus \<Rightarrow> PurchaseDocument" where
  "mkPurchase i v a d s =
     \<lparr>vendor = v, date = d, amount = a, description = ''Copy paper'', category = ''Office'',
      flags = [], status = s, fileUrl = Some [], department = ''District'', submittedBy = ''Sam'',
      aiConfidence = Some 90, suggestedGlCode = Some ''6100'', marketPriceEstimate = Some 0,
      isSubscription = Some False, rejectionFlags = None, rejectionNotes = None,
      rejectedBy = None, rejectedAt = None, doc_id = i\<rparr>"

definition mkResult :: "string \<Rightarrow> rat option \<Rightarrow> string \<Rightarrow> ExtractionResult" where
  "mkResult v a d =
     \<lparr>r_vendor = v, r_amount = a, r_date = d, r_description = ''Copy paper'',
      r_category = ''Office'', r_confidence = Some 90, r_suggestedGlCode = ''6100'',
      r_marketPriceEstimate = None, r_isSubscription = None, r_flags = Some []\<rparr>"

text \<open>
  The scenario of the specification, with the vendor names differing in case: 100.00
  against 100.50, five days apart.
\<close>

definition staplesResult :: ExtractionResult where
  "staplesResult = mkResult ''Staples'' (Some 100) ''2024-01-10''"

definition staplesPurchase :: PurchaseDocument where
  "staplesPurchase = mkPurchase ''p1'' ''STAPLES'' (201 / 2) ''2024-01-15'' PENDING"

text \<open>
  A pair within one percent of the larger amount but not of the candidate's: 1000 against
  1010.0625 (the difference is 10.0625, one percent of the larger amount is 10.100625 and
  one percent of the candidate's is 10).
\<close>

definition acmeResult :: ExtractionResult where
  "acmeResult = mkResult ''Acme Supply'' (Some 1000) ''2024-03-01''"

definition acmePurchase :: PurchaseDocument where
  "acmePurchase = mkPurchase ''p7'' ''ACME Supply'' (16161 / 16) ''2024-03-06'' VALIDATED"

text \<open>A pair that shares the amount only.\<close>

definition otherPurchase :: PurchaseDocument where
  "otherPurchase = mkPurchase ''p9'' ''Office Depot'' 100 ''2023-06-24'' PENDING"

text \<open>Users, and purchases in a terminal and in an open state.\<close>

definition reviewer :: User where
  "reviewer = \<lparr>user_id = ''u1'', name = ''Rae'', email = ''rae@example.org'', role = REVIEWER,
               organization = ''District'', avatar = None\<rparr>"

definition submitter :: User where
  "submitter = \<lparr>user_id = ''u2'', name = ''Sam'', email = ''sam@example.org'', role = SUBMITTER,
               organization = ''District'', avatar = None\<rparr>"

definition rejectedDoc :: PurchaseDocument where
  "rejectedDoc = (mkPurchase ''p1'' ''Staples'' 100 ''2024-01-15'' REJECTED)
      \<lparr>rejectionFlags := Some [WASTE], rejectionNotes := Some ''Too many'', rejectedBy := Some ''Rae'',
       rejectedAt := Some ''2024-02-01T10:00:00.000Z''\<rparr>"

definition pendingDoc :: PurchaseDocument where
  "pendingDoc = mkPurchase ''p2'' ''Staples'' 100 ''2024-01-15'' PENDING"

text \<open>
  A backing store for the examples that records what it is sent: the documents added and
  the updates written, in order. One \<open>updateDoc\<close> accepts every write, the other rejects
  every write.
\<close>

record StoreLog =
  added :: "PurchaseFields list"
  updated :: "(string \<times> PurchaseUpdates) list"

definition acceptingUpdateDoc :: "StoreLog \<Rightarrow> string \<Rightarrow> PurchaseUpdates \<Rightarrow> error + StoreLog" where
  "acceptingUpdateDoc store ident updates = Inr (store\<lparr>updated := updated store @ [(ident, updates)]\<rparr>)"

definition rejectingUpdateDoc :: "StoreLog \<Rightarrow> string \<Rightarrow> PurchaseUpdates \<Rightarrow> error + StoreLog" where
  "rejectingUpdateDoc store ident updates = Inl (FirebaseError ''permission-denied'')"

definition acceptingAddDoc :: "StoreLog \<Rightarrow> PurchaseFields \<Rightarrow> error + StoreLog" where
  "acceptingAddDoc store new = Inr (store\<lparr>added := added store @ [new]\<rparr>)"

definition acceptingUpload :: "string \<Rightarrow> string \<Rightarrow> error + string" where
  "acceptingUpload imageData uid = Inr (''https://storage.example/receipts/'' @ uid @ ''/1.jpg'')"

text \<open>
  A second store for the examples, which holds the documents themselves and merges the
  keys of an update into the stored document, and an application whose local list and
  store hold the same documents.
\<close>

definition mergingUpdateDoc ::
  "PurchaseDocument list \<Rightarrow> string \<Rightarrow> PurchaseUpdates \<Rightarrow> error + PurchaseDocument list" where
  "mergingUpdateDoc docs ident updates =
     Inr (map (\<lambda>d. if doc_id d = ident then spreadUpdates d updates else d) docs)"

definition syncedApp :: "PurchaseDocument list \<Rightarrow> PurchaseDocument list AppState" where
  "syncedApp ps = \<lparr>purchases = ps, usingMockData = False, isAdding = False, activeTab = ''review'',
                   db = ps\<rparr>"

definition appWith :: "PurchaseDocument list \<Rightarrow> StoreLog AppState" where
  "appWith ps = \<lparr>purchases = ps, usingMockData = False, isAdding = False, activeTab = ''review'',
                 db = \<lparr>added = [], updated = []\<rparr>\<rparr>"

text \<open>Extraction results: with a flag, without an amount, with a negative amount, with a market estimate.\<close>

definition deviationFlag :: ExtractionFlag where
  "deviationFlag = \<lparr>x_type = Some ''MARKET_DEVIATION'', x_reason = Some ''Above market'',
                     x_context = Some ''Market price 60''\<rparr>"

definition flaggedResult :: ExtractionResult where
  "flaggedResult = (mkResult ''Staples'' (Some 100) ''2024-01-10'')\<lparr>r_flags := Some [deviationFlag]\<rparr>"

definition noAmountFlaggedResult :: ExtractionResult where
  "noAmountFlaggedResult = (mkResult ''Staples'' None ''2024-01-10'')\<lparr>r_flags := Some [deviationFlag]\<rparr>"

definition refundResult :: ExtractionResult where
  "refundResult = mkResult ''Staples'' (Some (- 5)) ''2024-01-10''"

definition quoteResult :: ExtractionResult where
  "quoteResult = (mkResult ''Staples'' (Some 400) ''2024-01-10'')\<lparr>r_marketPriceEstimate := Some 250\<rparr>"

definition quoteItem :: Normalized where
  "quoteItem = \<lparr>normalizedId = ''PAPER_A4_CASE'', itemName = ''A4 copy paper, case'', confidence = 80\<rparr>"

text \<open>The Upload component with a file chosen, enrichment results, and a search that found a price.\<close>

definition uploadIdle :: UploadState where
  "uploadIdle = \<lparr>preview = Some ''data:image/jpeg;base64,AAAA'', isProcessing = False, result = None,
      showDuplicateWarning = False, priceIntelligence = None, priceSearching = False,
      searchProgress = None, commitmentData = None\<rparr>"

definition recurring :: CommitmentData where
  "recurring = \<lparr>isRecurring = True, renewalDate = Some ''2025-01-10'', cancellationDeadline = None,
                 escalationClause = None\<rparr>"

definition foundPrice :: SearchResponse where
  "foundPrice = Parsed \<lparr>raw_averagePrice = Some 300, raw_priceRange = Some (280, 320),
                         raw_confidence = Some 70, raw_reasoning = ''Two retailers''\<rparr>
                  [\<lparr>title = ''Retailer'', url = ''https://retailer.example/a4''\<rparr>]"

definition foundResult :: MarketPriceResult where
  "foundResult = \<lparr>averagePrice = Some 300, mp_priceRange = Some (280, 320),
                   mp_sources = [\<lparr>title = ''Retailer'', url = ''https://retailer.example/a4''\<rparr>],
                   mp_confidence = 70, searchQuery = ''A4 copy paper, case'',
                   mp_reasoning = ''Two retailers''\<rparr>"

section \<open>Properties of the duplicate scorer\<close>

lemma set_duplicateMatches:
  "set (duplicateMatches getTime (Some r) ps) =
     {m \<in> scorePair getTime r ` set ps. isPotentialDuplicate m}"
  by (auto simp: duplicateMatches_def)

lemma purchase_scorePair: "purchase (scorePair getTime r p) = p"
  by (simp add: scorePair_def split: option.splits)

lemma score_scorePair:
  "score (scorePair getTime r p) =
     (if vendorMatch p r then 30 else 0) + (if amountMatch p r then 40 else 0)
       + (if dateMatch getTime p r then 30 else 0)"
  by (simp add: scorePair_def dateMatch_def split: option.splits)

lemma length_reasons_scorePair:
  "length (reasons (scorePair getTime r p)) = checksMatched getTime r p"
  by (simp add: scorePair_def checksMatched_def dateMatch_def split: option.splits)

lemma isClassifiedDuplicate_iff:
  "isClassifiedDuplicate getTime r ps p \<longleftrightarrow>
     p \<in> set ps \<and> isPotentialDuplicate (scorePair getTime r p)"
  by (auto simp: isClassifiedDuplicate_def set_duplicateMatches purchase_scorePair image_iff)

text \<open>
  With the vendor and the date check satisfied, the pair is a match whatever the amounts
  are: two checks and a score of at least 60.
\<close>

lemma vendor_and_date_suffice:
  assumes "p \<in> set existingPurchases"
    and "toLowerCase (vendor p) = toLowerCase (r_vendor r)"
    and "daysDiff getTime p r = Some d" and "d \<le> 60"
  shows "isClassifiedDuplicate getTime r existingPurchases p \<and> score (scorePair getTime r p) \<ge> 60"
proof -
  have v: "vendorMatch p r"
    using assms(2) by (simp add: vendorMatch_def)
  have dm: "dateMatch getTime p r"
    using assms(3,4) by (simp add: dateMatch_def DUPLICATE_WINDOW_DAYS_def)
  show ?thesis
    using v dm assms(1)
    by (simp add: isClassifiedDuplicate_iff isPotentialDuplicate_def length_reasons_scorePair
        checksMatched_def score_scorePair)
qed

text \<open>
  C1, as stated, fails: for the pair \<open>acmeResult\<close>, \<open>acmePurchase\<close> the vendor names are equal
  up to case, the amounts differ by at most one percent of the larger amount and the dates
  are five days apart, but the amount check is not satisfied and the score is 60, not 100.
\<close>

theorem C1_counterexample:
  "toLowerCase (vendor acmePurchase) = toLowerCase (r_vendor acmeResult)
   \<and> r_amount acmeResult = Some 1000
   \<and> \<bar>amount acmePurchase - 1000\<bar> \<le> max (amount acmePurchase) 1000 * (1 / 100)
   \<and> daysDiff isoDateTime acmePurchase acmeResult = Some 5
   \<and> \<not> amountMatch acmePurchase acmeResult
   \<and> score (scorePair isoDateTime acmeResult acmePurchase) = 60
   \<and> reasons (scorePair isoDateTime acmeResult acmePurchase) = [''Same vendor'', ''Within 5 days'']"
  by code_simp

text \<open>
  C1 (amended): for every candidate record and existing purchase with case-insensitively
  equal vendor names, an amount difference of at most 1% of the candidate's amount, and
  transaction dates at most 60 days apart, the scorer accumulates +30 for the vendor, +40
  for the amount and +30 for the date, a score of 100, and classifies the pair as a
  duplicate match.
\<close>

theorem C1_all_three_checks:
  assumes "p \<in> set existingPurchases"
    and "toLowerCase (vendor p) = toLowerCase (r_vendor r)"
    and "r_amount r = Some a" and "\<bar>amount p - a\<bar> \<le> a * (1 / 100)"
    and "daysDiff getTime p r = Some d" and "d \<le> 60"
  shows "scorePair getTime r p =
           \<lparr>purchase = p, score = 30 + 40 + 30,
            reasons = [''Same vendor'', ''Same amount'',
                       ''Within '' @ showNat (nat (mathRound d)) @ '' days'']\<rparr>
         \<and> score (scorePair getTime r p) \<ge> 100
         \<and> isClassifiedDuplicate getTime r existingPurchases p"
proof -
  have v: "vendorMatch p r"
    using assms(2) by (simp add: vendorMatch_def)
  have am: "amountMatch p r"
    using assms(3,4) by (simp add: amountMatch_def)
  have sp: "scorePair getTime r p =
           \<lparr>purchase = p, score = 30 + 40 + 30,
            reasons = [''Same vendor'', ''Same amount'',
                       ''Within '' @ showNat (nat (mathRound d)) @ '' days'']\<rparr>"
    using v am assms(5,6) by (simp add: scorePair_def DUPLICATE_WINDOW_DAYS_def)
  show ?thesis
    using sp assms(1) by (simp add: isClassifiedDuplicate_iff isPotentialDuplicate_def)
qed

text \<open>The theorem at the scenario of the specification: one match, score 100, three reasons.\<close>

theorem C1_all_three_checks_witness:
  "score (scorePair isoDateTime staplesResult staplesPurchase) = 100
   \<and> reasons (scorePair isoDateTime staplesResult staplesPurchase)
       = [''Same vendor'', ''Same amount'', ''Within 5 days'']
   \<and> isClassifiedDuplicate isoDateTime staplesResult [staplesPurchase] staplesPurchase"
proof -
  have h1: "staplesPurchase \<in> set [staplesPurchase]" by simp
  have h2: "toLowerCase (vendor staplesPurchase) = toLowerCase (r_vendor staplesResult)"
    by code_simp
  have h3: "r_amount staplesResult = Some 100" by code_simp
  have h4: "\<bar>amount staplesPurchase - 100\<bar> \<le> 100 * (1 / 100)" by code_simp
  have h5: "daysDiff isoDateTime staplesPurchase staplesResult = Some 5" by code_simp
  have h6: "(5::rat) \<le> 60" by simp
  have r: "showNat (nat (mathRound 5)) = ''5''" by code_simp
  show ?thesis
    using C1_all_three_checks [OF h1 h2 h3 h4 h5 h6] r by simp
qed

text \<open>
  C5: a pair is classified as a duplicate match if and only if the accumulated score is at
  least 60 and at least 2 of the 3 checks (vendor, amount, date) matched; a pair with at
  most one matching check is not classified as a match.
\<close>

theorem C5_match_iff_score_and_two_checks:
  "p \<in> set existingPurchases \<Longrightarrow>
     (isClassifiedDuplicate getTime r existingPurchases p \<longleftrightarrow>
        score (scorePair getTime r p) \<ge> 60 \<and> checksMatched getTime r p \<ge> 2)
     \<and> (checksMatched getTime r p \<le> 1 \<longrightarrow> \<not> isClassifiedDuplicate getTime r existingPurchases p)"
  by (simp add: isClassifiedDuplicate_iff isPotentialDuplicate_def length_reasons_scorePair)

text \<open>
  The theorem at a pair that shares the amount only (score 40, one check, no match) and at
  the pair of the scenario (score 100, three checks, a match).
\<close>

theorem C5_match_iff_score_and_two_checks_witness:
  "checksMatched isoDateTime staplesResult otherPurchase = 1
   \<and> score (scorePair isoDateTime staplesResult otherPurchase) = 40
   \<and> \<not> isClassifiedDuplicate isoDateTime staplesResult [otherPurchase, staplesPurchase] otherPurchase
   \<and> checksMatched isoDateTime staplesResult staplesPurchase = 3
   \<and> isClassifiedDuplicate isoDateTime staplesResult [otherPurchase, staplesPurchase] staplesPurchase"
proof -
  have m1: "otherPurchase \<in> set [otherPurchase, staplesPurchase]" by simp
  have m2: "staplesPurchase \<in> set [otherPurchase, staplesPurchase]" by simp
  have c1: "checksMatched isoDateTime staplesResult otherPurchase = 1" by code_simp
  have s1: "score (scorePair isoDateTime staplesResult otherPurchase) = 40" by code_simp
  have c2: "checksMatched isoDateTime staplesResult staplesPurchase = 3" by code_simp
  have s2: "score (scorePair isoDateTime staplesResult staplesPurchase) = 100" by code_simp
  show ?thesis
    using C5_match_iff_score_and_two_checks [OF m1, of isoDateTime staplesResult]
      C5_match_iff_score_and_two_checks [OF m2, of isoDateTime staplesResult] c1 s1 c2 s2
    by simp
qed

section \<open>Properties of the review workflow\<close>

lemma spreadUpdates_status: "spreadUpdates p (noUpdates\<lparr>u_status := Some s\<rparr>) = p\<lparr>status := s\<rparr>"
  by (simp add: spreadUpdates_def noUpdates_def orKeep_def)

lemma cleanedUpdates_status:
  "cleanedUpdates (noUpdates\<lparr>u_status := Some s\<rparr>) = noUpdates\<lparr>u_status := Some s\<rparr>"
  by (simp add: cleanedUpdates_def noUpdates_def dropUndefined_def)

lemma spreadUpdates_reject:
  "spreadUpdates p (rejectUpdates user sel notes now) =
     p\<lparr>status := REJECTED, rejectionFlags := Some sel,
       rejectionNotes := (if trim notes = [] then None else Some (trim notes)),
       rejectedBy := Some (name user), rejectedAt := Some now\<rparr>"
  by (simp add: spreadUpdates_def rejectUpdates_def noUpdates_def orKeep_def)

lemma purchases_handleUpdatePurchase:
  "purchases (handleUpdatePurchase updateDoc ident updates st) =
     map (\<lambda>p. if doc_id p = ident then spreadUpdates p updates else p) (purchases st)"
  by (simp add: handleUpdatePurchase_def Let_def split: sum.splits)

lemma db_handleUpdatePurchase:
  "db (handleUpdatePurchase updateDoc ident updates st) =
     (if usingMockData st then db st
      else (case updateDoc (db st) ident (cleanedUpdates updates) of Inr db' \<Rightarrow> db' | Inl e \<Rightarrow> db st))"
  by (simp add: handleUpdatePurchase_def Let_def split: sum.splits)

lemma purchases_handleAction:
  "purchases (handleAction updateDoc user item s st) =
     (if isReviewer user
      then map (\<lambda>p. if doc_id p = doc_id item then p\<lparr>status := s\<rparr> else p) (purchases st)
      else purchases st)"
  by (simp add: handleAction_def onBack_def purchases_handleUpdatePurchase spreadUpdates_status)

lemma purchases_handleReject:
  "purchases (handleReject updateDoc user item sel notes now st) =
     (if isReviewer user \<and> sel \<noteq> []
      then map (\<lambda>p. if doc_id p = doc_id item
                     then p\<lparr>status := REJECTED, rejectionFlags := Some sel,
                            rejectionNotes := (if trim notes = [] then None else Some (trim notes)),
                            rejectedBy := Some (name user), rejectedAt := Some now\<rparr>
                     else p) (purchases st)
      else purchases st)"
  by (simp add: handleReject_def onBack_def purchases_handleUpdatePurchase spreadUpdates_reject)

text \<open>
  C2, as stated, fails: a reviewer's approve on a record whose status is REJECTED changes
  the status to VALIDATED.
\<close>

theorem C2_counterexample:
  "status rejectedDoc = REJECTED \<and> isReviewer reviewer
   \<and> map status (purchases (handleAction acceptingUpdateDoc reviewer rejectedDoc VALIDATED
                               (appWith [rejectedDoc]))) = [VALIDATED]"
  by code_simp

text \<open>
  C2 (amended): a review action by a user who is not a reviewer, and a reject with no
  reason tag, change nothing. A reviewer's approve or resolve sets the status of the
  targeted record to the requested status, and a reviewer's reject with at least one
  reason tag sets it to REJECTED, whatever the current status of the record is: the
  handlers do not test for a terminal state. The status of every other record is kept.
\<close>

theorem C2_review_actions_ignore_current_status:
  "(\<not> isReviewer user \<longrightarrow>
      handleAction updateDoc user item s st = st
      \<and> handleReject updateDoc user item sel notes now st = st)
   \<and> (sel = [] \<longrightarrow> handleReject updateDoc user item sel notes now st = st)
   \<and> (isReviewer user \<longrightarrow>
        map status (purchases (handleAction updateDoc user item s st)) =
          map (\<lambda>p. if doc_id p = doc_id item then s else status p) (purchases st))
   \<and> (isReviewer user \<and> sel \<noteq> [] \<longrightarrow>
        map status (purchases (handleReject updateDoc user item sel notes now st)) =
          map (\<lambda>p. if doc_id p = doc_id item then REJECTED else status p) (purchases st))"
proof -
  have blocked: "\<not> isReviewer user \<longrightarrow>
      handleAction updateDoc user item s st = st
      \<and> handleReject updateDoc user item sel notes now st = st"
    by (simp add: handleAction_def handleReject_def)
  have untagged: "sel = [] \<longrightarrow> handleReject updateDoc user item sel notes now st = st"
    by (simp add: handleReject_def)
  have approve: "isReviewer user \<longrightarrow>
        map status (purchases (handleAction updateDoc user item s st)) =
          map (\<lambda>p. if doc_id p = doc_id item then s else status p) (purchases st)"
    by (simp add: purchases_handleAction comp_def if_distrib cong: if_cong)
  have reject: "isReviewer user \<and> sel \<noteq> [] \<longrightarrow>
        map status (purchases (handleReject updateDoc user item sel notes now st)) =
          map (\<lambda>p. if doc_id p = doc_id item then REJECTED else status p) (purchases st)"
    by (simp add: purchases_handleReject comp_def if_distrib cong: if_cong)
  from blocked untagged approve reject show ?thesis by blast
qed

text \<open>
  The theorem for a submitter (nothing changes), for a reviewer without a reason tag
  (nothing changes), and for a reviewer who approves and who rejects with a tag.
\<close>

theorem C2_review_actions_ignore_current_status_witness:
  "handleAction acceptingUpdateDoc submitter rejectedDoc VALIDATED (appWith [rejectedDoc, pendingDoc])
     = appWith [rejectedDoc, pendingDoc]
   \<and> handleReject acceptingUpdateDoc reviewer pendingDoc [] ''none'' ''2024-02-02T09:00:00.000Z''
        (appWith [rejectedDoc, pendingDoc]) = appWith [rejectedDoc, pendingDoc]
   \<and> map status (purchases (handleAction acceptingUpdateDoc reviewer pendingDoc VALIDATED
                               (appWith [rejectedDoc, pendingDoc]))) = [REJECTED, VALIDATED]
   \<and> map status (purchases (handleReject acceptingUpdateDoc reviewer pendingDoc [DUPLICATE] ''twice''
                               ''2024-02-02T09:00:00.000Z'' (appWith [rejectedDoc, pendingDoc])))
       = [REJECTED, REJECTED]"
proof -
  have r: "isReviewer reviewer" by (simp add: isReviewer_def reviewer_def)
  have ns: "\<not> isReviewer submitter" by (simp add: isReviewer_def submitter_def)
  have t: "[DUPLICATE] \<noteq> []" by simp
  have i: "doc_id rejectedDoc = ''p1'' \<and> doc_id pendingDoc = ''p2''
           \<and> status rejectedDoc = REJECTED \<and> status pendingDoc = PENDING"
    by (simp add: rejectedDoc_def pendingDoc_def mkPurchase_def)
  have ps: "purchases (appWith [rejectedDoc, pendingDoc]) = [rejectedDoc, pendingDoc]"
    by (simp add: appWith_def)
  show ?thesis
    using C2_review_actions_ignore_current_status
            [of submitter acceptingUpdateDoc rejectedDoc VALIDATED "appWith [rejectedDoc, pendingDoc]"]
          C2_review_actions_ignore_current_status
            [of reviewer acceptingUpdateDoc pendingDoc VALIDATED "appWith [rejectedDoc, pendingDoc]"
                "[]" "''none''" "''2024-02-02T09:00:00.000Z''"]
          C2_review_actions_ignore_current_status
            [of reviewer acceptingUpdateDoc pendingDoc VALIDATED "appWith [rejectedDoc, pendingDoc]"
                "[DUPLICATE]" "''twice''" "''2024-02-02T09:00:00.000Z''"]
          r ns t i ps
    by simp
qed

text \<open>
  C3, as stated, fails: a reject with blank notes leaves \<open>rejectionNotes\<close> absent on a
  REJECTED record, and an approve of a rejected record leaves its rejection metadata in
  place on a VALIDATED record.
\<close>

theorem C3_counterexample:
  "isReviewer reviewer
   \<and> map status (purchases (handleReject acceptingUpdateDoc reviewer pendingDoc [WASTE] ''  ''
                               ''2024-02-01T10:00:00.000Z'' (appWith [pendingDoc]))) = [REJECTED]
   \<and> map rejectionNotes (purchases (handleReject acceptingUpdateDoc reviewer pendingDoc [WASTE] ''  ''
                               ''2024-02-01T10:00:00.000Z'' (appWith [pendingDoc]))) = [None]
   \<and> map status (purchases (handleAction acceptingUpdateDoc reviewer rejectedDoc VALIDATED
                               (appWith [rejectedDoc]))) = [VALIDATED]
   \<and> map rejectedBy (purchases (handleAction acceptingUpdateDoc reviewer rejectedDoc VALIDATED
                               (appWith [rejectedDoc]))) = [Some ''Rae'']"
  by code_simp

lemma cleanedUpdates_reject:
  "cleanedUpdates (rejectUpdates user sel notes now) =
     noUpdates\<lparr>u_status := Some REJECTED, u_rejectionFlags := Some (Some sel),
               u_rejectionNotes := (if trim notes = [] then None else Some (Some (trim notes))),
               u_rejectedBy := Some (Some (name user)), u_rejectedAt := Some (Some now)\<rparr>"
  by (simp add: cleanedUpdates_def rejectUpdates_def noUpdates_def dropUndefined_def)

lemma db_handleReject:
  "isReviewer user \<Longrightarrow> sel \<noteq> [] \<Longrightarrow>
     db (handleReject updateDoc user item sel notes now st) =
       (if usingMockData st then db st
        else (case updateDoc (db st) (doc_id item) (cleanedUpdates (rejectUpdates user sel notes now)) of
                Inr db' \<Rightarrow> db' | Inl e \<Rightarrow> db st))"
  by (simp add: handleReject_def onBack_def db_handleUpdatePurchase)

lemma db_handleAction:
  "isReviewer user \<Longrightarrow>
     db (handleAction updateDoc user item s st) =
       (if usingMockData st then db st
        else (case updateDoc (db st) (doc_id item) (noUpdates\<lparr>u_status := Some s\<rparr>) of
                Inr db' \<Rightarrow> db' | Inl e \<Rightarrow> db st))"
  by (simp add: handleAction_def onBack_def db_handleUpdatePurchase cleanedUpdates_status)

text \<open>
  C3 (amended): after every successful reject transition the targeted record of the local
  list has status REJECTED, \<open>rejectionFlags\<close> equal to the non-empty list of selected
  reason tags, \<open>rejectedBy\<close> the reviewer's name and \<open>rejectedAt\<close> the time stamp, and its
  \<open>rejectionNotes\<close> holds the trimmed notes when they are non-empty and is absent
  otherwise. Outside sandbox mode the update sent to the persistence layer holds the keys
  status, rejectionFlags, rejectedBy and rejectedAt with these values, and the key
  rejectionNotes with the trimmed notes only when they are non-empty: with blank notes the
  key is left out of the update. A validate transition sets the status, locally and in
  the update sent, and leaves the four rejection metadata fields as they were, so a
  record without rejection metadata has none afterwards.
\<close>

theorem C3_rejection_metadata_after_review:
  assumes "i < length (purchases st)" and "doc_id (purchases st ! i) = doc_id item"
    and "isReviewer user"
  shows "(sel \<noteq> [] \<longrightarrow>
           (let p' = purchases (handleReject updateDoc user item sel notes now st) ! i
            in status p' = REJECTED \<and> rejectionFlags p' = Some sel
               \<and> rejectedBy p' = Some (name user) \<and> rejectedAt p' = Some now
               \<and> rejectionNotes p' = (if trim notes = [] then None else Some (trim notes)))
           \<and> db (handleReject updateDoc user item sel notes now st) =
               (if usingMockData st then db st
                else (case updateDoc (db st) (doc_id item)
                             (noUpdates\<lparr>u_status := Some REJECTED,
                                       u_rejectionFlags := Some (Some sel),
                                       u_rejectionNotes :=
                                         (if trim notes = [] then None else Some (Some (trim notes))),
                                       u_rejectedBy := Some (Some (name user)),
                                       u_rejectedAt := Some (Some now)\<rparr>) of
                        Inr db' \<Rightarrow> db' | Inl e \<Rightarrow> db st)))
         \<and> (let p = purchases st ! i;
                 p' = purchases (handleAction updateDoc user item VALIDATED st) ! i
             in status p' = VALIDATED \<and> rejectionFlags p' = rejectionFlags p
                \<and> rejectionNotes p' = rejectionNotes p \<and> rejectedBy p' = rejectedBy p
                \<and> rejectedAt p' = rejectedAt p)
         \<and> db (handleAction updateDoc user item VALIDATED st) =
             (if usingMockData st then db st
              else (case updateDoc (db st) (doc_id item) (noUpdates\<lparr>u_status := Some VALIDATED\<rparr>) of
                      Inr db' \<Rightarrow> db' | Inl e \<Rightarrow> db st))"
proof -
  have loc: "sel \<noteq> [] \<longrightarrow>
           (let p' = purchases (handleReject updateDoc user item sel notes now st) ! i
            in status p' = REJECTED \<and> rejectionFlags p' = Some sel
               \<and> rejectedBy p' = Some (name user) \<and> rejectedAt p' = Some now
               \<and> rejectionNotes p' = (if trim notes = [] then None else Some (trim notes)))"
    using assms by (simp add: purchases_handleReject Let_def)
  have sent: "sel \<noteq> [] \<longrightarrow>
           db (handleReject updateDoc user item sel notes now st) =
               (if usingMockData st then db st
                else (case updateDoc (db st) (doc_id item)
                             (noUpdates\<lparr>u_status := Some REJECTED,
                                       u_rejectionFlags := Some (Some sel),
                                       u_rejectionNotes :=
                                         (if trim notes = [] then None else Some (Some (trim notes))),
                                       u_rejectedBy := Some (Some (name user)),
                                       u_rejectedAt := Some (Some now)\<rparr>) of
                        Inr db' \<Rightarrow> db' | Inl e \<Rightarrow> db st))"
    by (simp add: db_handleReject assms(3) cleanedUpdates_reject)
  have val: "(let p = purchases st ! i;
                 p' = purchases (handleAction updateDoc user item VALIDATED st) ! i
             in status p' = VALIDATED \<and> rejectionFlags p' = rejectionFlags p
                \<and> rejectionNotes p' = rejectionNotes p \<and> rejectedBy p' = rejectedBy p
                \<and> rejectedAt p' = rejectedAt p)"
    using assms by (simp add: purchases_handleAction Let_def)
  have vsent: "db (handleAction updateDoc user item VALIDATED st) =
             (if usingMockData st then db st
              else (case updateDoc (db st) (doc_id item) (noUpdates\<lparr>u_status := Some VALIDATED\<rparr>) of
                      Inr db' \<Rightarrow> db' | Inl e \<Rightarrow> db st))"
    using assms(3) by (rule db_handleAction)
  from loc sent val vsent show ?thesis by blast
qed

text \<open>
  The theorem for three actions on an application whose store merges the update into the
  stored document. A second reject of a rejected record with blank notes (a no-break
  space and a space): the local notes are absent, the stored notes are the old ones. A
  reject of an open record with notes: the trimmed notes are in both. An approve of an
  open record: no rejection metadata in either.
\<close>

theorem C3_rejection_metadata_after_review_witness:
  "map rejectionNotes (purchases (handleReject mergingUpdateDoc reviewer rejectedDoc [DUPLICATE]
        [CHR 0xA0, CHR '' ''] ''2024-02-03T10:00:00.000Z'' (syncedApp [rejectedDoc]))) = [None]
   \<and> map rejectionNotes (db (handleReject mergingUpdateDoc reviewer rejectedDoc [DUPLICATE]
        [CHR 0xA0, CHR '' ''] ''2024-02-03T10:00:00.000Z'' (syncedApp [rejectedDoc]))) = [Some ''Too many'']
   \<and> map rejectionFlags (db (handleReject mergingUpdateDoc reviewer rejectedDoc [DUPLICATE]
        [CHR 0xA0, CHR '' ''] ''2024-02-03T10:00:00.000Z'' (syncedApp [rejectedDoc]))) = [Some [DUPLICATE]]
   \<and> (let p' = purchases (handleReject mergingUpdateDoc reviewer pendingDoc [WASTE, DUPLICATE]
                          '' twice '' ''2024-02-01T10:00:00.000Z'' (syncedApp [pendingDoc])) ! 0
      in status p' = REJECTED \<and> rejectionFlags p' = Some [WASTE, DUPLICATE]
         \<and> rejectedBy p' = Some ''Rae'' \<and> rejectedAt p' = Some ''2024-02-01T10:00:00.000Z''
         \<and> rejectionNotes p' = Some ''twice'')
   \<and> map rejectionNotes (db (handleReject mergingUpdateDoc reviewer pendingDoc [WASTE, DUPLICATE]
        '' twice '' ''2024-02-01T10:00:00.000Z'' (syncedApp [pendingDoc]))) = [Some ''twice'']
   \<and> (let p' = purchases (handleAction mergingUpdateDoc reviewer pendingDoc VALIDATED
                            (syncedApp [pendingDoc])) ! 0
      in status p' = VALIDATED \<and> rejectionFlags p' = None \<and> rejectionNotes p' = None
         \<and> rejectedBy p' = None \<and> rejectedAt p' = None)
   \<and> map (\<lambda>d. (status d, rejectionFlags d, rejectionNotes d, rejectedBy d, rejectedAt d))
        (db (handleAction mergingUpdateDoc reviewer pendingDoc VALIDATED (syncedApp [pendingDoc])))
       = [(VALIDATED, None, None, None, None)]"
proof -
  have r1: "0 < length (purchases (syncedApp [rejectedDoc]))" by (simp add: syncedApp_def)
  have r2: "doc_id (purchases (syncedApp [rejectedDoc]) ! 0) = doc_id rejectedDoc"
    by (simp add: syncedApp_def)
  have h1: "0 < length (purchases (syncedApp [pendingDoc]))" by (simp add: syncedApp_def)
  have h2: "doc_id (purchases (syncedApp [pendingDoc]) ! 0) = doc_id pendingDoc"
    by (simp add: syncedApp_def)
  have h3: "isReviewer reviewer" by (simp add: isReviewer_def reviewer_def)
  have t0: "trim [CHR 0xA0, CHR '' ''] = []" by code_simp
  have t: "trim '' twice '' = ''twice''" by code_simp
  have n: "name reviewer = ''Rae''" by (simp add: reviewer_def)
  have pr: "purchases (syncedApp [rejectedDoc]) = [rejectedDoc] \<and> db (syncedApp [rejectedDoc]) = [rejectedDoc]
            \<and> \<not> usingMockData (syncedApp [rejectedDoc])"
    by (simp add: syncedApp_def)
  have pp: "purchases (syncedApp [pendingDoc]) = [pendingDoc] \<and> db (syncedApp [pendingDoc]) = [pendingDoc]
            \<and> \<not> usingMockData (syncedApp [pendingDoc])"
    by (simp add: syncedApp_def)
  have fr: "doc_id rejectedDoc = ''p1'' \<and> rejectionNotes rejectedDoc = Some ''Too many''"
    by (simp add: rejectedDoc_def mkPurchase_def)
  have fp: "doc_id pendingDoc = ''p2'' \<and> rejectionFlags pendingDoc = None \<and> rejectionNotes pendingDoc = None
            \<and> rejectedBy pendingDoc = None \<and> rejectedAt pendingDoc = None"
    by (simp add: pendingDoc_def mkPurchase_def)
  have a: "map rejectionNotes (purchases (handleReject mergingUpdateDoc reviewer rejectedDoc [DUPLICATE]
              [CHR 0xA0, CHR '' ''] ''2024-02-03T10:00:00.000Z'' (syncedApp [rejectedDoc]))) = [None]
           \<and> map rejectionNotes (db (handleReject mergingUpdateDoc reviewer rejectedDoc [DUPLICATE]
              [CHR 0xA0, CHR '' ''] ''2024-02-03T10:00:00.000Z'' (syncedApp [rejectedDoc]))) = [Some ''Too many'']
           \<and> map rejectionFlags (db (handleReject mergingUpdateDoc reviewer rejectedDoc [DUPLICATE]
              [CHR 0xA0, CHR '' ''] ''2024-02-03T10:00:00.000Z'' (syncedApp [rejectedDoc]))) = [Some [DUPLICATE]]"
    using C3_rejection_metadata_after_review
            [OF r1 r2 h3, of "[DUPLICATE]" mergingUpdateDoc "[CHR 0xA0, CHR '' '']"
               "''2024-02-03T10:00:00.000Z''"] t0 pr fr
    by (simp add: Let_def purchases_handleReject h3 mergingUpdateDoc_def spreadUpdates_def
        noUpdates_def orKeep_def)
  have b: "(let p' = purchases (handleReject mergingUpdateDoc reviewer pendingDoc [WASTE, DUPLICATE]
                          '' twice '' ''2024-02-01T10:00:00.000Z'' (syncedApp [pendingDoc])) ! 0
      in status p' = REJECTED \<and> rejectionFlags p' = Some [WASTE, DUPLICATE]
         \<and> rejectedBy p' = Some ''Rae'' \<and> rejectedAt p' = Some ''2024-02-01T10:00:00.000Z''
         \<and> rejectionNotes p' = Some ''twice'')
   \<and> map rejectionNotes (db (handleReject mergingUpdateDoc reviewer pendingDoc [WASTE, DUPLICATE]
        '' twice '' ''2024-02-01T10:00:00.000Z'' (syncedApp [pendingDoc]))) = [Some ''twice'']
   \<and> (let p' = purchases (handleAction mergingUpdateDoc reviewer pendingDoc VALIDATED
                            (syncedApp [pendingDoc])) ! 0
      in status p' = VALIDATED \<and> rejectionFlags p' = None \<and> rejectionNotes p' = None
         \<and> rejectedBy p' = None \<and> rejectedAt p' = None)
   \<and> map (\<lambda>d. (status d, rejectionFlags d, rejectionNotes d, rejectedBy d, rejectedAt d))
        (db (handleAction mergingUpdateDoc reviewer pendingDoc VALIDATED (syncedApp [pendingDoc])))
       = [(VALIDATED, None, None, None, None)]"
    using C3_rejection_metadata_after_review
            [OF h1 h2 h3, of "[WASTE, DUPLICATE]" mergingUpdateDoc "'' twice ''"
               "''2024-02-01T10:00:00.000Z''"] t n pp fp
    by (simp add: Let_def mergingUpdateDoc_def spreadUpdates_def noUpdates_def orKeep_def)
  from a b show ?thesis by blast
qed

text \<open>
  C10: the approve/resolve action writes exactly the status field of the targeted record.
  In the local list the records with the item's identifier get the new status and nothing
  else changes (in particular the identifier, vendor, amount, date, flags and the four
  rejection metadata fields of every record are kept); the payload sent to the persistence
  layer holds the status key only. An invocation by a user who is not a reviewer writes
  nothing.
\<close>

theorem C10_approve_writes_status_only:
  "(isReviewer user \<longrightarrow>
      purchases (handleAction updateDoc user item s st) =
        map (\<lambda>p. if doc_id p = doc_id item then p\<lparr>status := s\<rparr> else p) (purchases st)
      \<and> map (\<lambda>p. (doc_id p, vendor p, amount p, date p, flags p,
                   rejectionFlags p, rejectionNotes p, rejectedBy p, rejectedAt p))
           (purchases (handleAction updateDoc user item s st)) =
         map (\<lambda>p. (doc_id p, vendor p, amount p, date p, flags p,
                   rejectionFlags p, rejectionNotes p, rejectedBy p, rejectedAt p)) (purchases st)
      \<and> db (handleAction updateDoc user item s st) =
          (if usingMockData st then db st
           else (case updateDoc (db st) (doc_id item) (noUpdates\<lparr>u_status := Some s\<rparr>) of
                   Inr db' \<Rightarrow> db' | Inl e \<Rightarrow> db st)))
   \<and> (\<not> isReviewer user \<longrightarrow> handleAction updateDoc user item s st = st)"
proof -
  have loc: "isReviewer user \<longrightarrow>
      purchases (handleAction updateDoc user item s st) =
        map (\<lambda>p. if doc_id p = doc_id item then p\<lparr>status := s\<rparr> else p) (purchases st)"
    by (simp add: purchases_handleAction)
  have frame: "isReviewer user \<longrightarrow>
      map (\<lambda>p. (doc_id p, vendor p, amount p, date p, flags p,
                   rejectionFlags p, rejectionNotes p, rejectedBy p, rejectedAt p))
           (purchases (handleAction updateDoc user item s st)) =
         map (\<lambda>p. (doc_id p, vendor p, amount p, date p, flags p,
                   rejectionFlags p, rejectionNotes p, rejectedBy p, rejectedAt p)) (purchases st)"
    by (simp add: purchases_handleAction comp_def if_distrib cong: if_cong)
  have payload: "isReviewer user \<longrightarrow>
      db (handleAction updateDoc user item s st) =
          (if usingMockData st then db st
           else (case updateDoc (db st) (doc_id item) (noUpdates\<lparr>u_status := Some s\<rparr>) of
                   Inr db' \<Rightarrow> db' | Inl e \<Rightarrow> db st))"
    by (simp add: handleAction_def onBack_def db_handleUpdatePurchase cleanedUpdates_status)
  have other: "\<not> isReviewer user \<longrightarrow> handleAction updateDoc user item s st = st"
    by (simp add: handleAction_def)
  from loc frame payload other show ?thesis by blast
qed

text \<open>
  The theorem for a reviewer approving a rejected record (its rejection metadata stays, the
  store receives the status key only) and for a submitter.
\<close>

theorem C10_approve_writes_status_only_witness:
  "purchases (handleAction acceptingUpdateDoc reviewer rejectedDoc VALIDATED
                (appWith [rejectedDoc, pendingDoc]))
     = [rejectedDoc\<lparr>status := VALIDATED\<rparr>, pendingDoc]
   \<and> updated (db (handleAction acceptingUpdateDoc reviewer rejectedDoc VALIDATED
                     (appWith [rejectedDoc, pendingDoc])))
     = [(''p1'', noUpdates\<lparr>u_status := Some VALIDATED\<rparr>)]
   \<and> handleAction acceptingUpdateDoc submitter rejectedDoc VALIDATED (appWith [rejectedDoc, pendingDoc])
     = appWith [rejectedDoc, pendingDoc]"
proof -
  have r: "isReviewer reviewer" by (simp add: isReviewer_def reviewer_def)
  have ns: "\<not> isReviewer submitter" by (simp add: isReviewer_def submitter_def)
  have i: "doc_id rejectedDoc = ''p1'' \<and> doc_id pendingDoc = ''p2''"
    by (simp add: rejectedDoc_def pendingDoc_def mkPurchase_def)
  show ?thesis
    using C10_approve_writes_status_only
            [of reviewer acceptingUpdateDoc rejectedDoc VALIDATED "appWith [rejectedDoc, pendingDoc]"]
          C10_approve_writes_status_only
            [of submitter acceptingUpdateDoc rejectedDoc VALIDATED "appWith [rejectedDoc, pendingDoc]"]
          r ns i
    by (simp add: appWith_def acceptingUpdateDoc_def)
qed

section \<open>Properties of the persistence failure path\<close>

text \<open>
  C8, as stated, fails: after a rejected write the local list keeps the optimistic change
  (the record is VALIDATED locally although the store did not take the write), and the
  list is the same as after an accepted write, so nothing marks the record as unsynced.
\<close>

theorem C8_counterexample:
  "\<not> usingMockData (appWith [pendingDoc])
   \<and> rejectingUpdateDoc (db (appWith [pendingDoc])) ''p2''
         (cleanedUpdates (noUpdates\<lparr>u_status := Some VALIDATED\<rparr>))
       = Inl (FirebaseError ''permission-denied'')
   \<and> map status (purchases (appWith [pendingDoc])) = [PENDING]
   \<and> map status (purchases (handleUpdatePurchase rejectingUpdateDoc ''p2''
                               (noUpdates\<lparr>u_status := Some VALIDATED\<rparr>) (appWith [pendingDoc])))
       = [VALIDATED]
   \<and> purchases (handleUpdatePurchase rejectingUpdateDoc ''p2''
                   (noUpdates\<lparr>u_status := Some VALIDATED\<rparr>) (appWith [pendingDoc]))
       = purchases (handleUpdatePurchase acceptingUpdateDoc ''p2''
                      (noUpdates\<lparr>u_status := Some VALIDATED\<rparr>) (appWith [pendingDoc]))"
  by code_simp

text \<open>
  C8 (amended): whenever the persistence update fails after the optimistic local change of
  a review action, the optimistic change is kept in the local list (it is not rolled
  back), the backing store is left as it was, and the application switches to the
  local-only sandbox mode (\<open>usingMockData\<close>, which the dashboard shows as a banner).
\<close>

theorem C8_failed_update_keeps_local_change:
  assumes "\<not> usingMockData st" and "updateDoc (db st) ident (cleanedUpdates updates) = Inl e"
  shows "handleUpdatePurchase updateDoc ident updates st =
           st\<lparr>purchases := map (\<lambda>p. if doc_id p = ident then spreadUpdates p updates else p) (purchases st),
              usingMockData := True\<rparr>"
  using assms by (simp add: handleUpdatePurchase_def Let_def)

text \<open>The theorem for an approve whose write the store rejects.\<close>

theorem C8_failed_update_keeps_local_change_witness:
  "handleUpdatePurchase rejectingUpdateDoc ''p2'' (noUpdates\<lparr>u_status := Some VALIDATED\<rparr>)
       (appWith [pendingDoc])
     = (appWith [pendingDoc\<lparr>status := VALIDATED\<rparr>])\<lparr>usingMockData := True\<rparr>"
proof -
  have h1: "\<not> usingMockData (appWith [pendingDoc])" by (simp add: appWith_def)
  have h2: "rejectingUpdateDoc (db (appWith [pendingDoc])) ''p2''
              (cleanedUpdates (noUpdates\<lparr>u_status := Some VALIDATED\<rparr>))
            = Inl (FirebaseError ''permission-denied'')"
    by (simp add: rejectingUpdateDoc_def)
  have i: "doc_id pendingDoc = ''p2''" by (simp add: pendingDoc_def mkPurchase_def)
  show ?thesis
    using C8_failed_update_keeps_local_change
            [where updateDoc = rejectingUpdateDoc and st = "appWith [pendingDoc]" and ident = "''p2''"
               and updates = "noUpdates\<lparr>u_status := Some VALIDATED\<rparr>", OF h1 h2] i
    by (simp add: appWith_def spreadUpdates_status)
qed

section \<open>Properties of record creation\<close>

lemma purchases_handleUploadComplete:
  "purchases (handleUploadComplete up addDoc cu today nowMs data img st) =
     PurchaseFields.extend (newPurchase data cu (uploadedFileUrl up cu img st) today)
        (PurchaseDocument.fields (''uploading-'' @ showNat nowMs)) # purchases st"
  by (simp add: handleUploadComplete_def Let_def split: sum.splits)

lemma created_fields:
  "PurchaseFields.truncate (PurchaseFields.extend new (PurchaseDocument.fields i)) = new"
  by (simp add: PurchaseFields.defs PurchaseDocument.defs)

lemma db_handleUploadComplete:
  "db (handleUploadComplete up addDoc cu today nowMs data img st) =
     (if usingMockData st then db st
      else (case addDoc (db st) (PurchaseFields.truncate (hd (purchases (handleUploadComplete up addDoc cu today nowMs data img st)))) of
              Inr db' \<Rightarrow> db' | Inl e \<Rightarrow> db st))"
  by (simp add: purchases_handleUploadComplete created_fields)
     (simp add: handleUploadComplete_def Let_def split: sum.splits)

lemma created_status:
  "status (PurchaseFields.extend (newPurchase data cu u today) (PurchaseDocument.fields i)) =
     (if (case r_flags data of None \<Rightarrow> False | Some fs \<Rightarrow> fs \<noteq> []) then FLAGGED else PENDING)"
  by (simp add: newPurchase_def PurchaseFields.defs PurchaseDocument.defs split: option.splits)

lemma created_flags:
  "flags (PurchaseFields.extend (newPurchase data cu u today) (PurchaseDocument.fields i)) \<noteq> [] \<longleftrightarrow>
     (case r_flags data of None \<Rightarrow> False | Some fs \<Rightarrow> fs \<noteq> [])"
  by (simp add: newPurchase_def PurchaseFields.defs PurchaseDocument.defs split: option.splits)

lemma created_amount:
  "amount (PurchaseFields.extend (newPurchase data cu u today) (PurchaseDocument.fields i)) =
     (case r_amount data of None \<Rightarrow> 0 | Some a \<Rightarrow> a)"
  by (simp add: newPurchase_def numOr_def PurchaseFields.defs PurchaseDocument.defs split: option.splits)

lemma created_freeOfUndefined:
  "freeOfUndefined (newPurchase data cu u today) \<longleftrightarrow>
     list_all extractionFlagComplete (case r_flags data of None \<Rightarrow> [] | Some fs \<Rightarrow> fs)"
  by (simp add: freeOfUndefined_def newPurchase_def flagComplete_def extractionFlagComplete_def
      list_all_iff split: option.splits)

lemma truncate_amount: "amount (PurchaseFields.truncate c) = amount c"
  by (simp add: PurchaseFields.defs)

text \<open>
  C6: the purchase record created from the extraction result on a confirmed submission
  (the new head of the local list) has status FLAGGED when the extraction's flags list is
  non-empty and status PENDING when it is empty (or absent); its status is FLAGGED exactly
  when its own flags list is non-empty.
\<close>

theorem C6_status_on_creation:
  "purchases (handleUploadComplete up addDoc cu today nowMs data img st)
     = hd (purchases (handleUploadComplete up addDoc cu today nowMs data img st)) # purchases st
   \<and> (r_flags data = Some fs \<and> fs \<noteq> [] \<longrightarrow>
        status (hd (purchases (handleUploadComplete up addDoc cu today nowMs data img st))) = FLAGGED)
   \<and> (r_flags data = Some [] \<or> r_flags data = None \<longrightarrow>
        status (hd (purchases (handleUploadComplete up addDoc cu today nowMs data img st))) = PENDING)
   \<and> (status (hd (purchases (handleUploadComplete up addDoc cu today nowMs data img st))) = FLAGGED
        \<longleftrightarrow> flags (hd (purchases (handleUploadComplete up addDoc cu today nowMs data img st))) \<noteq> [])"
  by (auto simp: purchases_handleUploadComplete created_status created_flags split: option.splits)

text \<open>The theorem for an extraction with one flag and for one with none.\<close>

theorem C6_status_on_creation_witness:
  "status (hd (purchases (handleUploadComplete acceptingUpload acceptingAddDoc (Some submitter)
        ''2024-01-12'' 1705060000000 flaggedResult ''data:image/jpeg;base64,AAAA'' (appWith [])))) = FLAGGED
   \<and> status (hd (purchases (handleUploadComplete acceptingUpload acceptingAddDoc (Some submitter)
        ''2024-01-12'' 1705060000000 staplesResult ''data:image/jpeg;base64,AAAA'' (appWith [])))) = PENDING"
proof -
  have f: "r_flags flaggedResult = Some [deviationFlag] \<and> [deviationFlag] \<noteq> []"
    by (simp add: flaggedResult_def)
  have e: "r_flags staplesResult = Some [] \<or> r_flags staplesResult = None"
    by (simp add: staplesResult_def mkResult_def)
  show ?thesis
    using C6_status_on_creation
            [of acceptingUpload acceptingAddDoc "Some submitter" "''2024-01-12''" 1705060000000
               flaggedResult "''data:image/jpeg;base64,AAAA''" "appWith []"
               "[deviationFlag]"]
          C6_status_on_creation
            [of acceptingUpload acceptingAddDoc "Some submitter" "''2024-01-12''" 1705060000000
               staplesResult "''data:image/jpeg;base64,AAAA''" "appWith []" "[]"] f e
    by blast
qed

text \<open>
  C7, as stated, fails: an extraction with the amount -5 creates a record whose stored
  amount is -5, locally and in the document handed to the store.
\<close>

theorem C7_counterexample:
  "r_amount refundResult = Some (- 5)
   \<and> amount (hd (purchases (handleUploadComplete acceptingUpload acceptingAddDoc (Some submitter)
        ''2024-01-12'' 1705060000000 refundResult ''data:image/jpeg;base64,AAAA'' (appWith [])))) = - 5
   \<and> map amount (added (db (handleUploadComplete acceptingUpload acceptingAddDoc (Some submitter)
        ''2024-01-12'' 1705060000000 refundResult ''data:image/jpeg;base64,AAAA'' (appWith [])))) = [- 5]"
  by (simp add: db_handleUploadComplete truncate_amount purchases_handleUploadComplete
      created_amount refundResult_def mkResult_def appWith_def acceptingAddDoc_def)

text \<open>
  C7 (amended): for every created purchase record the stored amount is the extraction's
  amount when it has one and 0 when it has none, so it is non-negative whenever the
  extraction's amount is absent or non-negative. An extraction without an amount makes
  the result card of the Upload screen throw; \<open>handleUploadComplete\<close>, given such an
  extraction, stores the amount 0, and outside sandbox mode it hands that record to the
  persistence layer, free of \<open>undefined\<close> values when every extracted flag carries its
  type, reason and context.
\<close>

theorem C7_stored_amount:
  "amount (hd (purchases (handleUploadComplete up addDoc cu today nowMs data img st)))
     = (case r_amount data of None \<Rightarrow> 0 | Some a \<Rightarrow> a)
   \<and> ((case r_amount data of None \<Rightarrow> True | Some a \<Rightarrow> 0 \<le> a) \<longrightarrow>
        0 \<le> amount (hd (purchases (handleUploadComplete up addDoc cu today nowMs data img st))))
   \<and> (r_amount data = None \<longrightarrow>
        renderDetectedAmount data = Inl TypeError
        \<and> amount (hd (purchases (handleUploadComplete up addDoc cu today nowMs data img st))) = 0
        \<and> (list_all extractionFlagComplete (case r_flags data of None \<Rightarrow> [] | Some fs \<Rightarrow> fs) \<longrightarrow>
             freeOfUndefined (PurchaseFields.truncate (hd (purchases (handleUploadComplete up addDoc cu today nowMs data img st)))))
        \<and> (\<not> usingMockData st \<longrightarrow>
             db (handleUploadComplete up addDoc cu today nowMs data img st) =
               (case addDoc (db st) (PurchaseFields.truncate (hd (purchases (handleUploadComplete up addDoc cu today nowMs data img st)))) of
                  Inr db' \<Rightarrow> db' | Inl e \<Rightarrow> db st)))"
proof -
  let ?c = "hd (purchases (handleUploadComplete up addDoc cu today nowMs data img st))"
  have a: "amount ?c = (case r_amount data of None \<Rightarrow> 0 | Some a \<Rightarrow> a)"
    by (simp add: purchases_handleUploadComplete created_amount)
  have n: "(case r_amount data of None \<Rightarrow> True | Some a \<Rightarrow> 0 \<le> a) \<longrightarrow> 0 \<le> amount ?c"
    unfolding a by (simp split: option.splits)
  have z: "r_amount data = None \<longrightarrow> amount ?c = 0"
    unfolding a by simp
  have t: "r_amount data = None \<longrightarrow> renderDetectedAmount data = Inl TypeError"
    by (simp add: renderDetectedAmount_def)
  have d: "list_all extractionFlagComplete (case r_flags data of None \<Rightarrow> [] | Some fs \<Rightarrow> fs) \<longrightarrow>
             freeOfUndefined (PurchaseFields.truncate ?c)"
    by (simp add: purchases_handleUploadComplete created_fields created_freeOfUndefined)
  have s: "\<not> usingMockData st \<longrightarrow>
             db (handleUploadComplete up addDoc cu today nowMs data img st) =
               (case addDoc (db st) (PurchaseFields.truncate ?c) of Inr db' \<Rightarrow> db' | Inl e \<Rightarrow> db st)"
    using db_handleUploadComplete [of up addDoc cu today nowMs data img st] by simp
  from a n z t d s show ?thesis by blast
qed

text \<open>
  The theorem for an extraction without an amount and with one complete flag, and for one
  with the amount 100.
\<close>

theorem C7_stored_amount_witness:
  "renderDetectedAmount noAmountFlaggedResult = Inl TypeError
   \<and> amount (hd (purchases (handleUploadComplete acceptingUpload acceptingAddDoc (Some submitter)
        ''2024-01-12'' 1705060000000 noAmountFlaggedResult ''data:image/jpeg;base64,AAAA'' (appWith [])))) = 0
   \<and> map amount (added (db (handleUploadComplete acceptingUpload acceptingAddDoc (Some submitter)
        ''2024-01-12'' 1705060000000 noAmountFlaggedResult ''data:image/jpeg;base64,AAAA'' (appWith [])))) = [0]
   \<and> map freeOfUndefined (added (db (handleUploadComplete acceptingUpload acceptingAddDoc (Some submitter)
        ''2024-01-12'' 1705060000000 noAmountFlaggedResult ''data:image/jpeg;base64,AAAA'' (appWith [])))) = [True]
   \<and> 0 \<le> amount (hd (purchases (handleUploadComplete acceptingUpload acceptingAddDoc (Some submitter)
        ''2024-01-12'' 1705060000000 staplesResult ''data:image/jpeg;base64,AAAA'' (appWith []))))"
proof -
  have h1: "r_amount noAmountFlaggedResult = None"
    by (simp add: noAmountFlaggedResult_def mkResult_def)
  have h2: "\<not> usingMockData (appWith [])" by (simp add: appWith_def)
  have h3: "(case r_amount staplesResult of None \<Rightarrow> True | Some a \<Rightarrow> 0 \<le> a)"
    by (simp add: staplesResult_def mkResult_def)
  have h4: "list_all extractionFlagComplete
              (case r_flags noAmountFlaggedResult of None \<Rightarrow> [] | Some fs \<Rightarrow> fs)"
    by (simp add: noAmountFlaggedResult_def extractionFlagComplete_def deviationFlag_def)
  have d: "db (appWith []) = \<lparr>added = [], updated = []\<rparr>" by (simp add: appWith_def)
  show ?thesis
    using C7_stored_amount
            [of acceptingUpload acceptingAddDoc "Some submitter" "''2024-01-12''" 1705060000000
               noAmountFlaggedResult "''data:image/jpeg;base64,AAAA''" "appWith []"]
          C7_stored_amount
            [of acceptingUpload acceptingAddDoc "Some submitter" "''2024-01-12''" 1705060000000
               staplesResult "''data:image/jpeg;base64,AAAA''" "appWith []"] h1 h2 h3 h4 d
    by (simp add: acceptingAddDoc_def truncate_amount)
qed

section \<open>Properties of the enrichment\<close>

text \<open>Every failed search resolves to \<open>null\<close>; the promise is never rejected.\<close>

lemma failed_search_resolves_to_null:
  "response \<in> {CallRejected e, NoText, NotJson} \<Longrightarrow>
     snd (searchMarketPriceStreaming item response) = None"
  by (auto simp: searchMarketPriceStreaming_def Let_def)

text \<open>After a failed search the price intelligence is the normalized item without any price.\<close>

lemma priceTask_failed_search:
  assumes "response \<in> {CallRejected e, NoText, NotJson}"
  shows "priceIntelligence (priceTask d (Some n) response st) =
           Some (Normalized.extend n (PriceIntelligence.fields None None None None None None))"
  using assms
  by (auto simp: priceTask_def searchMarketPriceStreaming_def afterNormalize_def afterSearch_def
      onProgress_def Let_def)

text \<open>
  C4 (the code at the failing input): the extraction has the amount 400 and the market
  price estimate 250, the normalization succeeds and the provider call of the search
  rejects. \<open>searchMarketPriceStreaming\<close> resolves to \<open>null\<close>, and after the price task the
  price intelligence has neither \<open>stateAverage\<close> nor \<open>savingsOpportunity\<close>. The fallback of
  \<open>handleProcess\<close> would give 250 and 150, but it runs only for a rejected promise.
\<close>

theorem C4_failed_search_takes_no_fallback:
  "r_amount quoteResult = Some 400 \<and> r_marketPriceEstimate quoteResult = Some 250
   \<and> snd (searchMarketPriceStreaming (itemName quoteItem) (CallRejected (ProviderError ''network''))) = None
   \<and> map_option stateAverage
        (priceIntelligence (priceTask quoteResult (Some quoteItem) (CallRejected (ProviderError ''network''))
           (afterAnalyze (Some quoteResult) (handleProcessStart uploadIdle)))) = Some None
   \<and> map_option savingsOpportunity
        (priceIntelligence (priceTask quoteResult (Some quoteItem) (CallRejected (ProviderError ''network''))
           (afterAnalyze (Some quoteResult) (handleProcessStart uploadIdle)))) = Some None
   \<and> map_option stateAverage
        (priceIntelligence (afterSearch quoteResult quoteItem (Inl (ProviderError ''network''))
           (afterNormalize (Some quoteItem) (afterAnalyze (Some quoteResult) (handleProcessStart uploadIdle)))))
       = Some (Some 250)
   \<and> map_option savingsOpportunity
        (priceIntelligence (afterSearch quoteResult quoteItem (Inl (ProviderError ''network''))
           (afterNormalize (Some quoteItem) (afterAnalyze (Some quoteResult) (handleProcessStart uploadIdle)))))
       = Some (Some 150)"
  by code_simp

text \<open>
  C9, as stated, fails: after \<open>reset\<close> has cleared the state of a submission in progress,
  the commitment result that arrives later is stored in \<open>commitmentData\<close>, and the price
  task that completes later stores its price in \<open>priceIntelligence\<close>.
\<close>

theorem C9_counterexample:
  "preview (reset (afterAnalyze (Some quoteResult) (handleProcessStart uploadIdle))) = None
   \<and> result (reset (afterAnalyze (Some quoteResult) (handleProcessStart uploadIdle))) = None
   \<and> commitmentData (reset (afterAnalyze (Some quoteResult) (handleProcessStart uploadIdle))) = None
   \<and> commitmentData (afterCommitments (Some recurring)
        (reset (afterAnalyze (Some quoteResult) (handleProcessStart uploadIdle)))) = Some recurring
   \<and> map_option stateAverage
        (priceIntelligence (priceTask quoteResult (Some quoteItem) foundPrice
           (reset (afterAnalyze (Some quoteResult) (handleProcessStart uploadIdle))))) = Some (Some 300)"
  by code_simp

text \<open>
  C9 (amended): if the user discards an in-progress submission (reset, "retake") while the
  enrichment calls are still outstanding, the reset clears the state, and every
  later-arriving enrichment result is applied to the cleared state: a commitment result
  sets \<open>commitmentData\<close>, a normalization result sets \<open>priceIntelligence\<close> and
  \<open>priceSearching\<close>, and a market price sets \<open>priceIntelligence\<close>.
\<close>

theorem C9_late_results_applied_after_reset:
  "afterCommitments (Some c) (reset st) = (reset st)\<lparr>commitmentData := Some c\<rparr>
   \<and> afterNormalize (Some n) (reset st) =
       (reset st)\<lparr>priceIntelligence :=
                    Some (Normalized.extend n (PriceIntelligence.fields None None None None None None)),
                  priceSearching := True\<rparr>
   \<and> (averagePrice mp \<noteq> None \<longrightarrow>
        afterSearch d n (Inr (Some mp)) (reset st) =
          (reset st)\<lparr>priceIntelligence :=
             Some (Normalized.extend n
                     (PriceIntelligence.fields (averagePrice mp)
                        (positiveOrUndefined (numSub (r_amount d) (averagePrice mp)))
                        (Some (mp_sources mp)) (mp_priceRange mp) (Some (mp_confidence mp))
                        (Some (mp_reasoning mp))))\<rparr>)"
  by (simp add: afterCommitments_def afterNormalize_def afterSearch_def reset_def)

text \<open>The theorem for a commitment result and a market price of 300 that arrive after the reset.\<close>

theorem C9_late_results_applied_after_reset_witness:
  "commitmentData (afterCommitments (Some recurring) (reset uploadIdle)) = Some recurring
   \<and> map_option stateAverage
        (priceIntelligence (afterSearch quoteResult quoteItem (Inr (Some foundResult)) (reset uploadIdle)))
       = Some (Some 300)
   \<and> map_option savingsOpportunity
        (priceIntelligence (afterSearch quoteResult quoteItem (Inr (Some foundResult)) (reset uploadIdle)))
       = Some (Some 100)"
proof -
  have h: "averagePrice foundResult \<noteq> None" by (simp add: foundResult_def)
  have a: "averagePrice foundResult = Some 300" by (simp add: foundResult_def)
  have q: "r_amount quoteResult = Some 400" by (simp add: quoteResult_def mkResult_def)
  show ?thesis
    using C9_late_results_applied_after_reset [of recurring uploadIdle quoteItem foundResult quoteResult] h a q
    by (simp add: positiveOrUndefined_def numSub_def Normalized.defs PriceIntelligence.defs)
qed

end
